theory Spec2Isabelle
  imports Complex_Main
begin

section \<open>Python values and feature dictionaries\<close>

text \<open>
  The feature dictionary of \<^verbatim>\<open>ml_service.py\<close> is a Python \<^verbatim>\<open>Dict\<close> from feature names to
  the values \<^verbatim>\<open>extract_features\<close> stores: booleans, integers and floats. Floats are modelled
  as exact real numbers: rounding error, infinities and the \<^verbatim>\<open>OverflowError\<close> of converting an
  integer beyond the range of a double are outside the model. A Python \<^verbatim>\<open>bool\<close> is a number
  (\<^verbatim>\<open>True == 1\<close>) wherever the code does arithmetic or a comparison on it, and a number is a
  truth value (non-zero) wherever the code tests it.
\<close>

datatype pyval = VBool bool | VInt int | VFloat real

type_synonym features = "string \<rightharpoonup> pyval"

fun num :: "pyval \<Rightarrow> real" where
  "num (VBool b) = (if b then 1 else 0)"
| "num (VInt i) = of_int i"
| "num (VFloat x) = x"

fun truthy :: "pyval \<Rightarrow> bool" where
  "truthy (VBool b) = b"
| "truthy (VInt i) = (i \<noteq> 0)"
| "truthy (VFloat x) = (x \<noteq> 0)"

text \<open>\<^verbatim>\<open>features.get(key, default)\<close>\<close>

definition dict_get :: "features \<Rightarrow> string \<Rightarrow> pyval \<Rightarrow> pyval" where
  "dict_get d k dflt = (case d k of None \<Rightarrow> dflt | Some v \<Rightarrow> v)"

text \<open>
  \<^verbatim>\<open>round(x, n)\<close>: Python rounds to the nearest multiple of \<open>10\<^sup>-\<^sup>n\<close>, a tie going to the
  even neighbour.
\<close>

definition round_half_even :: "real \<Rightarrow> int" where
  "round_half_even x =
     (let f = \<lfloor>x\<rfloor>; d = x - of_int f
      in if d < 1 / 2 then f
         else if 1 / 2 < d then f + 1
         else if even f then f else f + 1)"

definition py_round :: "real \<Rightarrow> nat \<Rightarrow> real" where
  "py_round x n = of_int (round_half_even (x * 10 ^ n)) / 10 ^ n"

section \<open>Exceptions\<close>

text \<open>
  A computation that may raise returns a sum: \<open>Inl\<close> the exception, \<open>Inr\<close> the value.
\<close>

datatype exn = Exception string

text \<open>\<^verbatim>\<open>try: body except: handler\<close>\<close>

definition try_except :: "exn + 'a \<Rightarrow> (exn \<Rightarrow> exn + 'a) \<Rightarrow> exn + 'a" where
  "try_except body handler = (case body of Inl e \<Rightarrow> handler e | Inr v \<Rightarrow> Inr v)"

definition bind_exn :: "exn + 'a \<Rightarrow> ('a \<Rightarrow> exn + 'b) \<Rightarrow> exn + 'b" where
  "bind_exn m k = (case m of Inl e \<Rightarrow> Inl e | Inr v \<Rightarrow> k v)"


definition py_max :: "('a :: linorder) list \<Rightarrow> exn + 'a" where
  "py_max xs = (case xs of [] \<Rightarrow> Inl (Exception ''ValueError'') | x # ys \<Rightarrow> Inr (fold max ys x))"

text \<open>\<^verbatim>\<open>a / b\<close> raises on a zero divisor.\<close>

definition py_div :: "real \<Rightarrow> real \<Rightarrow> exn + real" where
  "py_div a b = (if b = 0 then Inl (Exception ''ZeroDivisionError'') else Inr (a / b))"

section \<open>Python strings\<close>

text \<open>
  A text is a \<^typ>\<open>string\<close>: the ASCII characters of the Python string as they are, any other
  character as the bytes of its UTF-8 encoding. The character classes of the regular
  expressions (\<^verbatim>\<open>\w\<close>, \<^verbatim>\<open>\d\<close>, \<^verbatim>\<open>\s\<close>) and \<^verbatim>\<open>str.lower\<close> are modelled on ASCII: a byte outside
  ASCII belongs to no class and has no case, which is what Python does for the bullet
  glyphs and the dash the source names.
\<close>

definition lower_chars :: string where
  "lower_chars = ''abcdefghijklmnopqrstuvwxyz''"

definition upper_chars :: string where
  "upper_chars = ''ABCDEFGHIJKLMNOPQRSTUVWXYZ''"

definition digit_chars :: string where
  "digit_chars = ''0123456789''"

text \<open>\<^verbatim>\<open>\w\<close> is \<^verbatim>\<open>[a-zA-Z0-9_]\<close>.\<close>

definition word_chars :: string where
  "word_chars = lower_chars @ upper_chars @ digit_chars @ ''_''"

text \<open>
  \<^verbatim>\<open>\s\<close> and \<^verbatim>\<open>str.strip\<close>: tab, newline, vertical tab, form feed, carriage return, the four
  separators \<^verbatim>\<open>\x1c\<close> to \<^verbatim>\<open>\x1f\<close>, and the space.
\<close>

definition space_chars :: string where
  "space_chars =
     [CHR 0x09, CHR 0x0A, CHR 0x0B, CHR 0x0C, CHR 0x0D, CHR 0x1C, CHR 0x1D, CHR 0x1E,
      CHR 0x1F, CHR 0x20]"

definition is_word_char :: "char \<Rightarrow> bool" where
  "is_word_char c = (c \<in> set word_chars)"

definition lower_char :: "char \<Rightarrow> char" where
  "lower_char c = (case map_of (zip upper_chars lower_chars) c of Some l \<Rightarrow> l | None \<Rightarrow> c)"

definition upper_char :: "char \<Rightarrow> char" where
  "upper_char c = (case map_of (zip lower_chars upper_chars) c of Some u \<Rightarrow> u | None \<Rightarrow> c)"

text \<open>\<^verbatim>\<open>s.lower()\<close>\<close>

definition lower :: "string \<Rightarrow> string" where
  "lower s = map lower_char s"

text \<open>\<^verbatim>\<open>s.startswith(p)\<close>, \<^verbatim>\<open>s.endswith(p)\<close>, \<^verbatim>\<open>p in s\<close>\<close>

fun startswith :: "string \<Rightarrow> string \<Rightarrow> bool" where
  "startswith s [] = True"
| "startswith [] (p # ps) = False"
| "startswith (c # cs) (p # ps) = (c = p \<and> startswith cs ps)"

definition endswith :: "string \<Rightarrow> string \<Rightarrow> bool" where
  "endswith s p = startswith (rev s) (rev p)"

fun contains :: "string \<Rightarrow> string \<Rightarrow> bool" where
  "contains p [] = (p = [])"
| "contains p (c # cs) = (if startswith (c # cs) p then True else contains p cs)"

text \<open>\<^verbatim>\<open>s.count(p)\<close> for a non-empty \<^verbatim>\<open>p\<close>: the occurrences, left to right, that do not overlap.\<close>

fun count_sub :: "string \<Rightarrow> string \<Rightarrow> nat" where
  "count_sub p [] = 0"
| "count_sub p (c # cs) =
     (if p \<noteq> [] \<and> startswith (c # cs) p
      then Suc (count_sub p (drop (length p - 1) cs))
      else count_sub p cs)"

text \<open>\<^verbatim>\<open>s.strip()\<close>\<close>

definition py_strip :: "string \<Rightarrow> string" where
  "py_strip s =
     rev (dropWhile (\<lambda>c. c \<in> set space_chars) (rev (dropWhile (\<lambda>c. c \<in> set space_chars) s)))"

text \<open>\<^verbatim>\<open>s.split('\n')\<close>: the lines, one more than there are newlines.\<close>

fun split_lines :: "string \<Rightarrow> string \<Rightarrow> string list" where
  "split_lines cur [] = [rev cur]"
| "split_lines cur (c # cs) =
     (if c = CHR 0x0A then rev cur # split_lines [] cs else split_lines (c # cur) cs)"

text \<open>\<^verbatim>\<open>s.replace('.', '')\<close>\<close>

definition remove_dots :: "string \<Rightarrow> string" where
  "remove_dots s = filter (\<lambda>c. c \<noteq> CHR ''.'') s"

text \<open>
  \<^verbatim>\<open>len(s)\<close> counts characters, not bytes: every byte but the continuation bytes
  (\<^verbatim>\<open>0x80\<close> to \<^verbatim>\<open>0xBF\<close>) of a UTF-8 sequence starts one.
\<close>

definition py_len :: "string \<Rightarrow> nat" where
  "py_len s = length (filter (\<lambda>c. \<not> (128 \<le> (of_char c :: nat) \<and> (of_char c :: nat) < 192)) s)"

section \<open>Regular expressions\<close>

text \<open>
  The fragment of Python's \<^verbatim>\<open>re\<close> syntax that the source uses. \<open>Cls cs\<close> is one character
  out of \<open>cs\<close>, \<open>NotCls cs\<close> one character not in \<open>cs\<close>; \<open>Alt\<close> prefers its left branch;
  \<open>Star\<close> is the greedy and \<open>LazyStar\<close> the lazy repetition; \<open>WordB\<close> is \<^verbatim>\<open>\b\<close>, \<open>Ahead\<close> is
  \<^verbatim>\<open>(?=...)\<close>, \<open>NotAhead\<close> is \<^verbatim>\<open>(?!...)\<close>, \<open>EndZ\<close> is \<^verbatim>\<open>\Z\<close>, \<open>Dollar\<close> is \<^verbatim>\<open>$\<close> and \<open>Group\<close>
  is a capturing group.
\<close>

datatype regex =
    Cls string
  | NotCls string
  | Eps
  | Seq regex regex
  | Alt regex regex
  | Star regex
  | LazyStar regex
  | WordB
  | Ahead regex
  | NotAhead regex
  | EndZ
  | Dollar
  | Group regex

text \<open>
  A matcher state: the text before the position (nearest character first), the text from
  the position on, and the groups captured so far.
\<close>

type_synonym mstate = "string \<times> string \<times> string list"

definition remaining :: "mstate \<Rightarrow> nat" where
  "remaining st = length (fst (snd st))"

text \<open>
  The repetition of a matcher \<open>m\<close>, as a backtracking matcher explores it: the states after
  zero or more rounds, in the order in which they are tried. A round that consumes nothing is
  not repeated, so a state with \<open>n\<close> characters left needs at most \<open>n\<close> rounds, and the
  counter, which starts at \<open>n\<close>, never cuts a round off (lemma \<open>star_states_enough\<close>).
\<close>

fun star_states :: "(mstate \<Rightarrow> mstate list) \<Rightarrow> bool \<Rightarrow> nat \<Rightarrow> mstate \<Rightarrow> mstate list" where
  "star_states m greedy 0 st = [st]"
| "star_states m greedy (Suc n) st =
     (let more = concat (map (star_states m greedy n)
                   (filter (\<lambda>st'. remaining st' < remaining st) (m st)))
      in if greedy then more @ [st] else st # more)"

definition at_word_boundary :: "string \<Rightarrow> string \<Rightarrow> bool" where
  "at_word_boundary l r =
     ((case l of [] \<Rightarrow> False | c # cs \<Rightarrow> is_word_char c)
      \<noteq> (case r of [] \<Rightarrow> False | c # cs \<Rightarrow> is_word_char c))"

text \<open>
  All the ways in which a regular expression matches at a position, as the states after
  the match, in the order of preference of a backtracking matcher.
\<close>

primrec rmatch :: "regex \<Rightarrow> mstate \<Rightarrow> mstate list" where
  "rmatch (Cls cs) =
     (\<lambda>(l, r, g). case r of [] \<Rightarrow> [] | c # r' \<Rightarrow> if c \<in> set cs then [(c # l, r', g)] else [])"
| "rmatch (NotCls cs) =
     (\<lambda>(l, r, g). case r of [] \<Rightarrow> [] | c # r' \<Rightarrow> if c \<notin> set cs then [(c # l, r', g)] else [])"
| "rmatch Eps = (\<lambda>st. [st])"
| "rmatch (Seq a b) = (\<lambda>st. concat (map (rmatch b) (rmatch a st)))"
| "rmatch (Alt a b) = (\<lambda>st. rmatch a st @ rmatch b st)"
| "rmatch (Star a) = (\<lambda>st. star_states (rmatch a) True (remaining st) st)"
| "rmatch (LazyStar a) = (\<lambda>st. star_states (rmatch a) False (remaining st) st)"
| "rmatch WordB = (\<lambda>(l, r, g). if at_word_boundary l r then [(l, r, g)] else [])"
| "rmatch (Ahead a) = (\<lambda>st. if rmatch a st = [] then [] else [st])"
| "rmatch (NotAhead a) = (\<lambda>st. if rmatch a st = [] then [st] else [])"
| "rmatch EndZ = (\<lambda>(l, r, g). if r = [] then [(l, r, g)] else [])"
| "rmatch Dollar = (\<lambda>(l, r, g). if r = [] \<or> r = [CHR 0x0A] then [(l, r, g)] else [])"
| "rmatch (Group a) =
     (\<lambda>(l, r, g). map (\<lambda>(l', r', g'). (l', r', g' @ [rev (take (length l' - length l) l')]))
                  (rmatch a (l, r, g)))"

text \<open>
  A state \<open>st'\<close> extends \<open>st\<close> when it lies further on in the same text: some text \<open>m\<close>
  has moved from the part still to be read to the part already read.
\<close>

definition extends :: "mstate \<Rightarrow> mstate \<Rightarrow> bool" where
  "extends st st' = (\<exists>m. fst st' = rev m @ fst st \<and> fst (snd st) = m @ fst (snd st'))"

text \<open>
  \<^verbatim>\<open>re.IGNORECASE\<close>: a character class also holds the other case of each of its letters.
\<close>

primrec icase :: "regex \<Rightarrow> regex" where
  "icase (Cls cs) = Cls (cs @ map lower_char cs @ map upper_char cs)"
| "icase (NotCls cs) = NotCls (cs @ map lower_char cs @ map upper_char cs)"
| "icase Eps = Eps"
| "icase (Seq a b) = Seq (icase a) (icase b)"
| "icase (Alt a b) = Alt (icase a) (icase b)"
| "icase (Star a) = Star (icase a)"
| "icase (LazyStar a) = LazyStar (icase a)"
| "icase WordB = WordB"
| "icase (Ahead a) = Ahead (icase a)"
| "icase (NotAhead a) = NotAhead (icase a)"
| "icase EndZ = EndZ"
| "icase Dollar = Dollar"
| "icase (Group a) = Group (icase a)"

text \<open>
  \<^verbatim>\<open>re.search\<close>: the first position, from the left, at which the expression matches, and there
  the preferred match. \<open>re_search\<close> is \<^verbatim>\<open>bool(re.search(p, s))\<close> and \<open>re_search_group\<close> is
  \<^verbatim>\<open>re.search(p, s).group()\<close>, if there is a match.
\<close>

fun search_from :: "regex \<Rightarrow> string \<Rightarrow> string \<Rightarrow> (string \<times> string list) option" where
  "search_from p l [] =
     (case rmatch p (l, [], []) of
        [] \<Rightarrow> None
      | (l', r', g) # others \<Rightarrow> Some (rev (take (length l' - length l) l'), g))"
| "search_from p l (c # cs) =
     (case rmatch p (l, c # cs, []) of
        [] \<Rightarrow> search_from p (c # l) cs
      | (l', r', g) # others \<Rightarrow> Some (rev (take (length l' - length l) l'), g))"

definition re_search :: "regex \<Rightarrow> string \<Rightarrow> bool" where
  "re_search p s = (search_from p [] s \<noteq> None)"

definition re_search_group :: "regex \<Rightarrow> string \<Rightarrow> string option" where
  "re_search_group p s = map_option fst (search_from p [] s)"

text \<open>
  \<^verbatim>\<open>re.finditer\<close>: the matches from left to right, each search starting where the last match
  ended (one character further after an empty match). A match is the matched text with its
  groups.
\<close>

fun find_from :: "regex \<Rightarrow> string \<Rightarrow> string \<Rightarrow> (string \<times> string list) list" where
  "find_from p l [] =
     (case rmatch p (l, [], []) of
        [] \<Rightarrow> []
      | (l', r', g) # others \<Rightarrow> [(rev (take (length l' - length l) l'), g)])"
| "find_from p l (c # cs) =
     (case rmatch p (l, c # cs, []) of
        [] \<Rightarrow> find_from p (c # l) cs
      | (l', r', g) # others \<Rightarrow>
          (rev (take (length l' - length l) l'), g)
          # (if length r' < length (c # cs) then find_from p l' r' else find_from p (c # l) cs))"

text \<open>
  \<^verbatim>\<open>re.findall\<close> for an expression without groups (the matched texts) and for one with
  groups (the captured texts of each match).
\<close>

definition re_findall :: "regex \<Rightarrow> string \<Rightarrow> string list" where
  "re_findall p s = map fst (find_from p [] s)"

definition re_findall_groups :: "regex \<Rightarrow> string \<Rightarrow> string list list" where
  "re_findall_groups p s = map snd (find_from p [] s)"

text \<open>
  \<^verbatim>\<open>re.split\<close> for an expression without groups that matches no empty text: the pieces
  between the matches.
\<close>

fun split_from :: "regex \<Rightarrow> string \<Rightarrow> string \<Rightarrow> string \<Rightarrow> string list" where
  "split_from p l piece [] = [rev piece]"
| "split_from p l piece (c # cs) =
     (case rmatch p (l, c # cs, []) of
        [] \<Rightarrow> split_from p (c # l) (c # piece) cs
      | (l', r', g) # others \<Rightarrow>
          (if length r' < length (c # cs) then rev piece # split_from p l' [] r'
           else split_from p (c # l) (c # piece) cs))"

definition re_split :: "regex \<Rightarrow> string \<Rightarrow> string list" where
  "re_split p s = split_from p [] [] s"

subsection \<open>Writing patterns\<close>

text \<open>A literal text; \<^verbatim>\<open>r?\<close>; \<^verbatim>\<open>r+\<close>; \<^verbatim>\<open>r{n}\<close>; \<^verbatim>\<open>r{n,}\<close>; \<^verbatim>\<open>r{n,m}\<close>; a sequence; alternatives.\<close>

primrec lit :: "string \<Rightarrow> regex" where
  "lit [] = Eps"
| "lit (c # cs) = Seq (Cls [c]) (lit cs)"

definition opt :: "regex \<Rightarrow> regex" where
  "opt r = Alt r Eps"

definition plus_re :: "regex \<Rightarrow> regex" where
  "plus_re r = Seq r (Star r)"

primrec rep :: "nat \<Rightarrow> regex \<Rightarrow> regex" where
  "rep 0 r = Eps"
| "rep (Suc n) r = Seq r (rep n r)"

definition at_least :: "nat \<Rightarrow> regex \<Rightarrow> regex" where
  "at_least n r = Seq (rep n r) (Star r)"

primrec up_to :: "nat \<Rightarrow> regex \<Rightarrow> regex" where
  "up_to 0 r = Eps"
| "up_to (Suc n) r = Alt (Seq r (up_to n r)) Eps"

definition rep_range :: "nat \<Rightarrow> nat \<Rightarrow> regex \<Rightarrow> regex" where
  "rep_range n m r = Seq (rep n r) (up_to (m - n) r)"

primrec seqs :: "regex list \<Rightarrow> regex" where
  "seqs [] = Eps"
| "seqs (r # rs) = Seq r (seqs rs)"

fun alts :: "regex list \<Rightarrow> regex" where
  "alts [] = Cls []"
| "alts [r] = r"
| "alts (r # rs) = Alt r (alts rs)"

text \<open>\<^verbatim>\<open>\d\<close>, \<^verbatim>\<open>\w\<close>, \<^verbatim>\<open>\s\<close>, and \<^verbatim>\<open>.\<close> without and with \<^verbatim>\<open>re.DOTALL\<close>.\<close>

definition digit :: regex where "digit = Cls digit_chars"
definition wordc :: regex where "wordc = Cls word_chars"
definition space :: regex where "space = Cls space_chars"
definition any_char :: regex where "any_char = NotCls [CHR 0x0A]"
definition any_char_dotall :: regex where "any_char_dotall = NotCls []"

section \<open>Vocabularies (\<^verbatim>\<open>FeatureExtractor\<close>)\<close>

text \<open>
  The sets of the source, each as the list of its elements in the order of the source text.
  Nothing below depends on the order.
\<close>

definition ACTION_VERBS :: "string list" where
  "ACTION_VERBS =
     [''led'', ''managed'', ''directed'', ''supervised'', ''coordinated'', ''oversaw'',
      ''headed'', ''spearheaded'', ''orchestrated'', ''pioneered'', ''founded'',
      ''achieved'', ''accomplished'', ''attained'', ''exceeded'', ''surpassed'', ''earned'',
      ''won'', ''awarded'', ''recognized'', ''honored'', ''promoted'', ''created'',
      ''developed'', ''designed'', ''built'', ''established'', ''launched'', ''initiated'',
      ''introduced'', ''invented'', ''originated'', ''formulated'', ''improved'',
      ''enhanced'', ''optimized'', ''streamlined'', ''upgraded'', ''modernized'',
      ''revitalized'', ''transformed'', ''revolutionized'', ''restructured'', ''refined'',
      ''analyzed'', ''evaluated'', ''assessed'', ''researched'', ''investigated'',
      ''examined'', ''diagnosed'', ''identified'', ''discovered'', ''measured'',
      ''quantified'', ''presented'', ''communicated'', ''negotiated'', ''persuaded'',
      ''influenced'', ''advocated'', ''collaborated'', ''partnered'', ''liaised'',
      ''consulted'', ''mentored'', ''trained'', ''implemented'', ''deployed'',
      ''integrated'', ''automated'', ''engineered'', ''programmed'', ''architected'',
      ''configured'', ''migrated'', ''scaled'', ''debugged'', ''tested'', ''increased'',
      ''decreased'', ''reduced'', ''generated'', ''delivered'', ''executed'',
      ''accelerated'', ''expanded'', ''consolidated'', ''maximized'', ''minimized'']"

definition SECTION_KEYWORDS :: "(string \<times> string list) list" where
  "SECTION_KEYWORDS =
     [
      (''summary'',
        [''summary'', ''profile'', ''objective'', ''about'', ''overview'', ''introduction'']),
      (''experience'',
        [''experience'', ''employment'', ''work history'', ''professional experience'',
         ''career history'', ''relevant experience'']),
      (''education'',
        [''education'', ''academic'', ''qualification'', ''degree'', ''university'',
         ''college'', ''school'']),
      (''skills'',
        [''skills'', ''technical skills'', ''competencies'', ''expertise'',
         ''proficiencies'', ''technologies'', ''tools'']),
      (''projects'',
        [''projects'', ''portfolio'', ''key projects'', ''personal projects'']),
      (''certifications'',
        [''certifications'', ''certificates'', ''licenses'', ''credentials'',
         ''professional development''])
     ]"

definition TECH_SKILLS :: "string list" where
  "TECH_SKILLS =
     [''python'', ''java'', ''javascript'', ''typescript'', ''c++'', ''c#'', ''ruby'',
      ''php'', ''swift'', ''kotlin'', ''go'', ''golang'', ''rust'', ''scala'', ''r'',
      ''matlab'', ''perl'', ''objective-c'', ''dart'', ''lua'', ''haskell'', ''clojure'',
      ''elixir'', ''f#'', ''react'', ''angular'', ''vue'', ''svelte'', ''next.js'',
      ''nextjs'', ''nuxt'', ''gatsby'', ''django'', ''flask'', ''fastapi'', ''express'',
      ''node.js'', ''nodejs'', ''spring'', ''rails'', ''laravel'', ''asp.net'', ''.net'',
      ''dotnet'', ''tensorflow'', ''pytorch'', ''keras'', ''scikit-learn'', ''sklearn'',
      ''pandas'', ''numpy'', ''spark'', ''hadoop'', ''kafka'', ''airflow'', ''mlflow'',
      ''huggingface'', ''aws'', ''azure'', ''gcp'', ''google cloud'',
      ''amazon web services'', ''heroku'', ''digitalocean'', ''cloudflare'', ''vercel'',
      ''netlify'', ''docker'', ''kubernetes'', ''k8s'', ''jenkins'', ''circleci'',
      ''github actions'', ''gitlab ci'', ''terraform'', ''ansible'', ''puppet'', ''chef'',
      ''vagrant'', ''sql'', ''mysql'', ''postgresql'', ''postgres'', ''mongodb'', ''redis'',
      ''elasticsearch'', ''dynamodb'', ''cassandra'', ''oracle'', ''sqlite'', ''mariadb'',
      ''neo4j'', ''graphql'', ''git'', ''github'', ''gitlab'', ''bitbucket'', ''jira'',
      ''confluence'', ''slack'', ''figma'', ''sketch'', ''postman'', ''swagger'', ''nginx'',
      ''apache'', ''rest'', ''restful'', ''api'', ''microservices'', ''serverless'',
      ''ci/cd'', ''cicd'', ''agile'', ''scrum'', ''kanban'', ''devops'', ''sre'', ''tdd'',
      ''bdd'', ''machine learning'', ''deep learning'', ''nlp'', ''computer vision'',
      ''ai'', ''data science'', ''data engineering'', ''etl'', ''data pipeline'']"

definition JOB_TITLES :: "string list" where
  "JOB_TITLES =
     [''engineer'', ''developer'', ''programmer'', ''architect'', ''analyst'',
      ''scientist'', ''manager'', ''director'', ''vp'', ''vice president'', ''lead'',
      ''principal'', ''senior'', ''junior'', ''staff'', ''intern'', ''associate'',
      ''consultant'', ''specialist'', ''coordinator'', ''administrator'', ''executive'',
      ''officer'', ''head'', ''chief'', ''cto'', ''ceo'', ''cfo'', ''coo'', ''cio'',
      ''founder'', ''co-founder'']"

text \<open>The set \<^verbatim>\<open>languages\<close> of \<^verbatim>\<open>_count_programming_languages\<close>.\<close>

definition languages :: "string list" where
  "languages =
     [''python'', ''java'', ''javascript'', ''typescript'', ''c++'', ''c#'', ''ruby'',
      ''php'', ''swift'', ''kotlin'', ''go'', ''golang'', ''rust'', ''scala'', ''r'',
      ''matlab'', ''perl'', ''objective-c'', ''dart'', ''lua'', ''haskell'', ''clojure'',
      ''elixir'', ''f#'', ''groovy'', ''julia'', ''cobol'', ''fortran'', ''assembly'']"

text \<open>The set \<^verbatim>\<open>filler_words\<close> of \<^verbatim>\<open>_calculate_keyword_match\<close>.\<close>

definition filler_words :: "string list" where
  "filler_words =
     [''the'', ''and'', ''for'', ''with'', ''this'', ''that'', ''from'', ''have'', ''will'',
      ''your'', ''our'', ''you'', ''are'', ''can'', ''they'', ''their'', ''about'',
      ''more'', ''been'', ''being'', ''would'', ''could'', ''should'', ''also'', ''other'',
      ''than'', ''just'', ''only'', ''over'', ''such'', ''into'', ''through'', ''during'',
      ''before'', ''after'', ''above'', ''below'', ''between'', ''under'', ''again'',
      ''further'', ''then'', ''once'', ''here'', ''there'', ''when'', ''where'', ''which'',
      ''while'', ''company'', ''team'', ''work'', ''working'', ''looking'', ''position'',
      ''role'', ''experience'', ''required'', ''requirements'', ''qualifications'',
      ''skills'', ''ability'', ''knowledge'', ''understanding'', ''excellent'', ''strong'',
      ''good'']"

text \<open>
  The ten glyphs \<^verbatim>\<open>bullet_chars\<close> of \<^verbatim>\<open>_count_bullet_points\<close> (U+2022, U+25CF, U+25CB, U+25AA,
  U+25B8, U+25BA, U+25C6, U+25C7, U+25A0, U+25A1) and the en dash (U+2013) of the date
  patterns, in UTF-8.
\<close>

definition bullet_chars :: "string list" where
  "bullet_chars =
     [[CHR 0xE2, CHR 0x80, CHR 0xA2],
      [CHR 0xE2, CHR 0x97, CHR 0x8F],
      [CHR 0xE2, CHR 0x97, CHR 0x8B],
      [CHR 0xE2, CHR 0x96, CHR 0xAA],
      [CHR 0xE2, CHR 0x96, CHR 0xB8],
      [CHR 0xE2, CHR 0x96, CHR 0xBA],
      [CHR 0xE2, CHR 0x97, CHR 0x86],
      [CHR 0xE2, CHR 0x97, CHR 0x87],
      [CHR 0xE2, CHR 0x96, CHR 0xA0],
      [CHR 0xE2, CHR 0x96, CHR 0xA1]]"

definition en_dash :: string where
  "en_dash = [CHR 0xE2, CHR 0x80, CHR 0x93]"

section \<open>Feature extraction (\<^verbatim>\<open>FeatureExtractor\<close>)\<close>

text \<open>
  Each regular expression of the source is written out as a \<^typ>\<open>regex\<close>; the text before
  a definition gives the Python pattern. The functions keep the names of the source without
  the leading underscore.
\<close>

text \<open>\<^verbatim>\<open>\b\w+\b\<close>\<close>

definition words_re :: regex where
  "words_re = seqs [WordB, plus_re wordc, WordB]"

definition count_words :: "string \<Rightarrow> nat" where
  "count_words text = length (re_findall words_re text)"

text \<open>\<^verbatim>\<open>[.!?]+(?:\s|$)\<close>\<close>

definition sentence_end_re :: regex where
  "sentence_end_re = Seq (plus_re (Cls ''.!?'')) (Alt space Dollar)"

definition count_sentences :: "string \<Rightarrow> nat" where
  "count_sentences text =
     length (filter (\<lambda>s. py_strip s \<noteq> [] \<and> 10 < py_len (py_strip s))
               (re_split sentence_end_re text))"

text \<open>\<^verbatim>\<open>\b{name}\b\s*[:\n]?\<close> and \<^verbatim>\<open>\b{keyword}\b\<close>, the name escaped, with \<^verbatim>\<open>re.IGNORECASE\<close>\<close>

definition section_header_re :: "string \<Rightarrow> regex" where
  "section_header_re name =
     icase (seqs [WordB, lit name, WordB, Star space, opt (Cls [CHR '':'', CHR 0x0A])])"

definition keyword_re :: "string \<Rightarrow> regex" where
  "keyword_re keyword = icase (seqs [WordB, lit keyword, WordB])"

definition count_sections :: "string \<Rightarrow> nat" where
  "count_sections text =
     length (filter (\<lambda>section_names. list_ex (\<lambda>name. re_search (section_header_re name) text)
                                        section_names)
               (map snd SECTION_KEYWORDS))"

definition has_section :: "string \<Rightarrow> string \<Rightarrow> bool" where
  "has_section text section =
     (let keywords = (case map_of SECTION_KEYWORDS section of None \<Rightarrow> [] | Some ks \<Rightarrow> ks)
      in list_ex (\<lambda>keyword. re_search (keyword_re keyword) text) keywords)"

text \<open>\<^verbatim>\<open>\b[A-Za-z0-9._%+-]+@[A-Za-z0-9.-]+\.[A-Z|a-z]{2,}\b\<close> with \<^verbatim>\<open>re.IGNORECASE\<close>\<close>

definition email_re :: regex where
  "email_re =
     icase (seqs [WordB, plus_re (Cls (upper_chars @ lower_chars @ digit_chars @ ''._%+-'')),
                  lit ''@'', plus_re (Cls (upper_chars @ lower_chars @ digit_chars @ ''.-'')),
                  lit ''.'', at_least 2 (Cls (upper_chars @ ''|'' @ lower_chars)), WordB])"

definition has_email :: "string \<Rightarrow> bool" where
  "has_email text = re_search email_re text"

text \<open>
  \<^verbatim>\<open>(\+?\d{1,3}[-.\s]?)?\(?\d{3}\)?[-.\s]?\d{3}[-.\s]?\d{4}\<close>, \<^verbatim>\<open>\+\d{10,14}\<close> and
  \<^verbatim>\<open>\d{3}[-.\s]\d{3}[-.\s]\d{4}\<close>
\<close>

definition phone_sep :: regex where
  "phone_sep = Cls (''-.'' @ space_chars)"

definition phone_patterns :: "regex list" where
  "phone_patterns =
     [seqs [opt (Group (seqs [opt (lit ''+''), rep_range 1 3 digit, opt phone_sep])),
            opt (lit ''(''), rep 3 digit, opt (lit '')''), opt phone_sep, rep 3 digit,
            opt phone_sep, rep 4 digit],
      seqs [lit ''+'', rep_range 10 14 digit],
      seqs [rep 3 digit, phone_sep, rep 3 digit, phone_sep, rep 4 digit]]"

definition has_phone :: "string \<Rightarrow> bool" where
  "has_phone text = list_ex (\<lambda>pattern. re_search pattern text) phone_patterns"

definition has_linkedin :: "string \<Rightarrow> bool" where
  "has_linkedin text =
     list_ex (\<lambda>p. contains p text) [''linkedin.com'', ''linkedin:'', ''/in/'', ''linkedin'']"

definition has_github :: "string \<Rightarrow> bool" where
  "has_github text =
     list_ex (\<lambda>p. contains p text) [''github.com'', ''github:'', ''github.io'', ''github'']"

text \<open>
  \<^verbatim>\<open>_count_action_verbs\<close>: a word counts when it is an action verb, or ends in \<^verbatim>\<open>ed\<close> or in
  \<^verbatim>\<open>ing\<close> and is one without that ending.
\<close>

definition is_action_verb :: "string \<Rightarrow> bool" where
  "is_action_verb word =
     (if word \<in> set ACTION_VERBS then True
      else if endswith word ''ed'' \<and> take (length word - 2) word \<in> set ACTION_VERBS then True
      else if endswith word ''ing'' \<and> take (length word - 3) word \<in> set ACTION_VERBS then True
      else False)"

definition count_action_verbs :: "string \<Rightarrow> nat" where
  "count_action_verbs text = length (filter is_action_verb (re_findall words_re text))"

text \<open>
  The eight patterns of \<^verbatim>\<open>_count_quantifiable_metrics\<close>, with \<^verbatim>\<open>re.IGNORECASE\<close>:
  \<^verbatim>\<open>\d+%\<close>, \<^verbatim>\<open>\$[\d,]+[kmb]?\<close>, \<^verbatim>\<open>\d+[kmb]\+?\<close>, \<^verbatim>\<open>\d+\+\<close>, \<^verbatim>\<open>\d+x\<close>,
  \<^verbatim>\<open>\d+\s*(?:users?|customers?|clients?|people|team|engineers?|members?)\<close>,
  \<^verbatim>\<open>(?:increased?|decreased?|reduced?|improved?|grew?|saved?).*?\d+\<close> and
  \<^verbatim>\<open>\d+\s*(?:years?|months?|weeks?|days?|hours?)\<close>.
\<close>

definition metric_patterns :: "regex list" where
  "metric_patterns =
     [seqs [plus_re digit, lit ''%''],
      seqs [lit ''$'', plus_re (Cls (digit_chars @ '','')), opt (Cls ''kmb'')],
      seqs [plus_re digit, Cls ''kmb'', opt (lit ''+'')],
      seqs [plus_re digit, lit ''+''],
      seqs [plus_re digit, lit ''x''],
      seqs [plus_re digit, Star space,
            alts [seqs [lit ''user'', opt (lit ''s'')], seqs [lit ''customer'', opt (lit ''s'')],
                  seqs [lit ''client'', opt (lit ''s'')], lit ''people'', lit ''team'',
                  seqs [lit ''engineer'', opt (lit ''s'')], seqs [lit ''member'', opt (lit ''s'')]]],
      seqs [alts [seqs [lit ''increase'', opt (lit ''d'')], seqs [lit ''decrease'', opt (lit ''d'')],
                  seqs [lit ''reduce'', opt (lit ''d'')], seqs [lit ''improve'', opt (lit ''d'')],
                  seqs [lit ''gre'', opt (lit ''w'')], seqs [lit ''save'', opt (lit ''d'')]],
            LazyStar any_char, plus_re digit],
      seqs [plus_re digit, Star space,
            alts [seqs [lit ''year'', opt (lit ''s'')], seqs [lit ''month'', opt (lit ''s'')],
                  seqs [lit ''week'', opt (lit ''s'')], seqs [lit ''day'', opt (lit ''s'')],
                  seqs [lit ''hour'', opt (lit ''s'')]]]]"

definition count_quantifiable_metrics :: "string \<Rightarrow> nat" where
  "count_quantifiable_metrics text =
     (let count = fold (\<lambda>pattern count. count + length (re_findall (icase pattern) text))
                    metric_patterns 0
      in min count 50)"

definition count_bullet_points :: "string \<Rightarrow> nat" where
  "count_bullet_points text =
     (let count = sum_list (map (\<lambda>char. count_sub char text) bullet_chars);
          lines = split_lines [] text
      in fold (\<lambda>line count.
                 (let stripped = py_strip line
                  in if startswith stripped ''-'' \<or> startswith stripped ''*''
                     then count + 1 else count))
           lines count)"

text \<open>\<^verbatim>\<open>\b[\w.#+]+\b\<close>; the set of the words found is a list without repetition.\<close>

definition tech_word_re :: regex where
  "tech_word_re = seqs [WordB, plus_re (Cls (word_chars @ ''.#+'')), WordB]"

definition count_technical_terms :: "string \<Rightarrow> nat" where
  "count_technical_terms text =
     (let words = remdups (re_findall tech_word_re text)
      in length (filter (\<lambda>word. word \<in> set TECH_SKILLS \<or> remove_dots word \<in> set TECH_SKILLS)
                   words))"

text \<open>
  \<^verbatim>\<open>int(s)\<close> on a text of decimal digits, as the patterns capture it. It raises on anything
  else, and on more than 4300 digits (the limit of Python 3.11 on the conversion).
\<close>

definition digit_value :: "char \<Rightarrow> int" where
  "digit_value c = (case map_of (zip digit_chars [0, 1, 2, 3, 4, 5, 6, 7, 8, 9]) c of
                      Some d \<Rightarrow> d | None \<Rightarrow> 0)"

definition py_int :: "string \<Rightarrow> exn + int" where
  "py_int s =
     (if s \<noteq> [] \<and> list_all (\<lambda>c. c \<in> set digit_chars) s \<and> length s \<le> 4300
      then Inr (fold (\<lambda>c n. 10 * n + digit_value c) s 0)
      else Inl (Exception ''ValueError''))"

text \<open>
  The three patterns of \<^verbatim>\<open>_extract_years_experience\<close>, with \<^verbatim>\<open>re.IGNORECASE\<close>:
  \<^verbatim>\<open>(\d+)\+?\s*(?:years?|yrs?)\s*(?:of)?\s*(?:experience|exp)?\<close>,
  \<^verbatim>\<open>(\d+)\s*-\s*(\d+)\s*(?:years?|yrs?)\<close> and \<^verbatim>\<open>over\s*(\d+)\s*(?:years?|yrs?)\<close>;
  and the date range \<^verbatim>\<open>(20\d{2})\s*[-\u2013]\s*(20\d{2}|present|current)\<close>.
\<close>

definition years_unit :: regex where
  "years_unit = Alt (seqs [lit ''year'', opt (lit ''s'')]) (seqs [lit ''yr'', opt (lit ''s'')])"

definition year_patterns :: "regex list" where
  "year_patterns =
     [seqs [Group (plus_re digit), opt (lit ''+''), Star space, years_unit, Star space,
            opt (lit ''of''), Star space, opt (Alt (lit ''experience'') (lit ''exp''))],
      seqs [Group (plus_re digit), Star space, lit ''-'', Star space, Group (plus_re digit),
            Star space, years_unit],
      seqs [lit ''over'', Star space, Group (plus_re digit), Star space, years_unit]]"

definition date_range_re :: regex where
  "date_range_re =
     seqs [Group (seqs [lit ''20'', rep 2 digit]), Star space, Alt (lit ''-'') (lit en_dash),
           Star space,
           Group (alts [seqs [lit ''20'', rep 2 digit], lit ''present'', lit ''current''])]"

text \<open>
  \<^verbatim>\<open>try: years.append(int(match)) except: pass\<close>, where \<^verbatim>\<open>match\<close> is the only group of a
  match or the last one (\<^verbatim>\<open>match[-1]\<close>) of several.
\<close>

definition append_year :: "int list \<Rightarrow> string list \<Rightarrow> int list" where
  "append_year years groups =
     (case try_except
             (bind_exn (if groups = [] then Inl (Exception ''IndexError'') else Inr (last groups))
                (\<lambda>m. bind_exn (py_int m) (\<lambda>n. Inr (years @ [n]))))
             (\<lambda>e. Inr years)
      of Inl e \<Rightarrow> years | Inr ys \<Rightarrow> ys)"

text \<open>
  \<^verbatim>\<open>try: start_year = int(start); end_year = 2025 if end.lower() in ['present', 'current']
  else int(end); years.append(end_year - start_year) except: pass\<close>
\<close>

definition append_range :: "int list \<Rightarrow> string list \<Rightarrow> int list" where
  "append_range years groups =
     (case try_except
             (case groups of
                [start, end] \<Rightarrow>
                  bind_exn (py_int start) (\<lambda>start_year.
                  bind_exn (if lower end \<in> set [''present'', ''current''] then Inr 2025
                            else py_int end) (\<lambda>end_year.
                  Inr (years @ [end_year - start_year])))
              | _ \<Rightarrow> Inl (Exception ''ValueError''))
             (\<lambda>e. Inr years)
      of Inl e \<Rightarrow> years | Inr ys \<Rightarrow> ys)"

definition extract_years_experience :: "string \<Rightarrow> exn + int" where
  "extract_years_experience text =
     (let years = fold (\<lambda>pattern years.
                          fold (\<lambda>m years. append_year years m)
                            (re_findall_groups (icase pattern) text) years)
                    year_patterns [];
          date_ranges = re_findall_groups (icase date_range_re) text;
          years = fold (\<lambda>m years. append_range years m) date_ranges years
      in if years \<noteq> [] then py_max years else Inr 0)"

text \<open>The second indicator of \<^verbatim>\<open>_count_jobs\<close>: \<^verbatim>\<open>(?:at|@)\s+[A-Z][a-zA-Z]+\<close>, with \<^verbatim>\<open>re.IGNORECASE\<close>\<close>

definition at_company_re :: regex where
  "at_company_re =
     seqs [Alt (lit ''at'') (lit ''@''), plus_re space, Cls upper_chars,
           plus_re (Cls (lower_chars @ upper_chars))]"

definition count_jobs :: "string \<Rightarrow> nat" where
  "count_jobs text =
     (let count = fold (\<lambda>pattern count. count + length (re_findall (icase pattern) text))
                    [date_range_re, at_company_re] 0;
          title_matches = length (filter (\<lambda>title. contains title text) JOB_TITLES)
      in max (max count (title_matches div 2)) 1)"

text \<open>
  \<^verbatim>\<open>(?:senior|junior|lead|principal|staff)\s+\w+\s+(?:engineer|developer|manager)\<close> and
  \<^verbatim>\<open>(?:software|data|product|project|engineering)\s+(?:engineer|developer|manager|analyst)\<close>
\<close>

definition job_title_patterns :: "regex list" where
  "job_title_patterns =
     [seqs [alts [lit ''senior'', lit ''junior'', lit ''lead'', lit ''principal'', lit ''staff''],
            plus_re space, plus_re wordc, plus_re space,
            alts [lit ''engineer'', lit ''developer'', lit ''manager'']],
      seqs [alts [lit ''software'', lit ''data'', lit ''product'', lit ''project'',
                  lit ''engineering''],
            plus_re space,
            alts [lit ''engineer'', lit ''developer'', lit ''manager'', lit ''analyst'']]]"

definition has_job_titles :: "string \<Rightarrow> bool" where
  "has_job_titles text =
     (if list_ex (\<lambda>pattern. re_search (icase pattern) text) job_title_patterns then True
      else list_ex (\<lambda>title. contains title text) JOB_TITLES)"
text \<open>
  The ladder of \<^verbatim>\<open>_get_degree_level\<close>, highest level first, with \<^verbatim>\<open>re.IGNORECASE\<close>:
  level 5: \<^verbatim>\<open>\bph\.?d\b\<close>, \<^verbatim>\<open>\bdoctorate\b\<close>, \<^verbatim>\<open>\bdoctoral\b\<close>;
  level 4: \<^verbatim>\<open>\bmaster'?s?\b\<close>, \<^verbatim>\<open>\bm\.?s\.?\b\<close>, \<^verbatim>\<open>\bm\.?a\.?\b\<close>, \<^verbatim>\<open>\bmba\b\<close>, \<^verbatim>\<open>\bm\.?eng\b\<close>;
  level 3: \<^verbatim>\<open>\bbachelor'?s?\b\<close>, \<^verbatim>\<open>\bb\.?s\.?\b\<close>, \<^verbatim>\<open>\bb\.?a\.?\b\<close>, \<^verbatim>\<open>\bb\.?eng\b\<close>,
  \<^verbatim>\<open>\bundergraduate\b\<close>;
  level 2: \<^verbatim>\<open>\bassociate\b\<close>, \<^verbatim>\<open>\bdiploma\b\<close>, \<^verbatim>\<open>\ba\.?s\.?\b\<close>, \<^verbatim>\<open>\ba\.?a\.?\b\<close>;
  level 1: \<^verbatim>\<open>\bhigh school\b\<close>, \<^verbatim>\<open>\bged\b\<close>, \<^verbatim>\<open>\bsecondary\b\<close>.
\<close>

definition dot_opt :: regex where
  "dot_opt = opt (lit ''.'')"

definition degree_patterns :: "(nat \<times> regex list) list" where
  "degree_patterns =
     [(5, [seqs [WordB, lit ''ph'', dot_opt, lit ''d'', WordB],
           seqs [WordB, lit ''doctorate'', WordB],
           seqs [WordB, lit ''doctoral'', WordB]]),
      (4, [seqs [WordB, lit ''master'', opt (lit [CHR 0x27]), opt (lit ''s''), WordB],
           seqs [WordB, lit ''m'', dot_opt, lit ''s'', dot_opt, WordB],
           seqs [WordB, lit ''m'', dot_opt, lit ''a'', dot_opt, WordB],
           seqs [WordB, lit ''mba'', WordB],
           seqs [WordB, lit ''m'', dot_opt, lit ''eng'', WordB]]),
      (3, [seqs [WordB, lit ''bachelor'', opt (lit [CHR 0x27]), opt (lit ''s''), WordB],
           seqs [WordB, lit ''b'', dot_opt, lit ''s'', dot_opt, WordB],
           seqs [WordB, lit ''b'', dot_opt, lit ''a'', dot_opt, WordB],
           seqs [WordB, lit ''b'', dot_opt, lit ''eng'', WordB],
           seqs [WordB, lit ''undergraduate'', WordB]]),
      (2, [seqs [WordB, lit ''associate'', WordB],
           seqs [WordB, lit ''diploma'', WordB],
           seqs [WordB, lit ''a'', dot_opt, lit ''s'', dot_opt, WordB],
           seqs [WordB, lit ''a'', dot_opt, lit ''a'', dot_opt, WordB]]),
      (1, [seqs [WordB, lit ''high school'', WordB],
           seqs [WordB, lit ''ged'', WordB],
           seqs [WordB, lit ''secondary'', WordB]])]"

text \<open>The patterns of the tier of a level.\<close>

definition tier :: "nat \<Rightarrow> regex list" where
  "tier level = (case map_of degree_patterns level of None \<Rightarrow> [] | Some patterns \<Rightarrow> patterns)"

text \<open>
  The two nested \<^verbatim>\<open>for\<close> loops: the inner one returns the level at the first pattern of
  the tier that matches, the outer one goes on to the next tier; after the last tier the
  function returns 0.
\<close>

fun tier_matches :: "regex list \<Rightarrow> string \<Rightarrow> bool" where
  "tier_matches [] text = False"
| "tier_matches (pattern # patterns) text =
     (if re_search (icase pattern) text then True else tier_matches patterns text)"

fun degree_loop :: "(nat \<times> regex list) list \<Rightarrow> string \<Rightarrow> nat" where
  "degree_loop [] text = 0"
| "degree_loop ((level, patterns) # tiers) text =
     (if tier_matches patterns text then level else degree_loop tiers text)"

definition get_degree_level :: "string \<Rightarrow> nat" where
  "get_degree_level text = degree_loop degree_patterns text"

text \<open>
  \<^verbatim>\<open>\bgpa\b\<close>, \<^verbatim>\<open>grade\s*point\s*average\<close>, \<^verbatim>\<open>\d\.\d+\s*/\s*4\.0\<close> and \<^verbatim>\<open>[34]\.\d{1,2}\s*gpa\<close>,
  with \<^verbatim>\<open>re.IGNORECASE\<close>
\<close>

definition gpa_patterns :: "regex list" where
  "gpa_patterns =
     [seqs [WordB, lit ''gpa'', WordB],
      seqs [lit ''grade'', Star space, lit ''point'', Star space, lit ''average''],
      seqs [digit, lit ''.'', plus_re digit, Star space, lit ''/'', Star space, lit ''4.0''],
      seqs [Cls ''34'', lit ''.'', rep_range 1 2 digit, Star space, lit ''gpa'']]"

definition has_gpa :: "string \<Rightarrow> bool" where
  "has_gpa text = list_ex (\<lambda>pattern. re_search (icase pattern) text) gpa_patterns"

text \<open>
  \<^verbatim>\<open>(?:skills?|technologies|tools|competenc).*?(?=\n\n|\n[A-Z]|\Z)\<close> with \<^verbatim>\<open>re.DOTALL\<close> and
  \<^verbatim>\<open>re.IGNORECASE\<close>, and \<^verbatim>\<open>[\u2022\u25cf\u25cb\u25aa-]\s*\w+\<close>
\<close>

definition skills_section_re :: regex where
  "skills_section_re =
     seqs [alts [seqs [lit ''skill'', opt (lit ''s'')], lit ''technologies'', lit ''tools'',
                 lit ''competenc''],
           LazyStar any_char_dotall,
           Ahead (alts [lit [CHR 0x0A, CHR 0x0A], seqs [lit [CHR 0x0A], Cls upper_chars], EndZ])]"

definition list_item_re :: regex where
  "list_item_re =
     seqs [alts [lit (bullet_chars ! 0), lit (bullet_chars ! 1), lit (bullet_chars ! 2),
                 lit (bullet_chars ! 3), lit ''-''],
           Star space, plus_re wordc]"

definition count_skills :: "string \<Rightarrow> nat" where
  "count_skills text =
     (let tech_count = count_technical_terms text;
          skills_section = re_search_group (icase skills_section_re) text;
          tech_count =
            (case skills_section of
               None \<Rightarrow> tech_count
             | Some section_text \<Rightarrow>
                 (let comma_count = count_sub '','' section_text + 1;
                      list_items = length (re_findall list_item_re section_text)
                  in max (max tech_count comma_count) list_items))
      in min tech_count 50)"

text \<open>\<^verbatim>\<open>\b{lang}\b\<close>, the language escaped, and \<^verbatim>\<open>\bc\b(?!\+\+|#)\<close>\<close>

definition bare_c_re :: regex where
  "bare_c_re = seqs [WordB, lit ''c'', WordB, NotAhead (Alt (lit ''++'') (lit ''#''))]"

definition count_programming_languages :: "string \<Rightarrow> nat" where
  "count_programming_languages text =
     (let text_lower = lower text;
          count = length (filter (\<lambda>lang. re_search (seqs [WordB, lit lang, WordB]) text_lower)
                            languages);
          count = (if re_search bare_c_re text_lower then count + 1 else count)
      in count)"

text \<open>
  \<^verbatim>\<open>_get_readability_score\<close>. The statistic \<^verbatim>\<open>textstat.flesch_reading_ease\<close> belongs to an
  external library: it is a parameter, and it may raise.
\<close>

definition get_readability_score :: "(string \<Rightarrow> exn + real) \<Rightarrow> string \<Rightarrow> exn + pyval" where
  "get_readability_score flesch_reading_ease text =
     try_except
       (bind_exn (flesch_reading_ease text) (\<lambda>score. Inr (VFloat (max 20 (min 100 score)))))
       (\<lambda>e. Inr (VInt 60))"

definition check_length :: "nat \<Rightarrow> bool" where
  "check_length word_count = (250 \<le> word_count \<and> word_count \<le> 900)"

text \<open>
  \<^verbatim>\<open>\b\d{4}\s*[-\u2013]\s*(?:\d{4}|present|current)\b\<close> and
  \<^verbatim>\<open>\b(?:jan|feb|mar|apr|may|jun|jul|aug|sep|oct|nov|dec)\w*\s+\d{4}\b\<close>, with
  \<^verbatim>\<open>re.IGNORECASE\<close>
\<close>

definition date_format_patterns :: "regex list" where
  "date_format_patterns =
     [seqs [WordB, rep 4 digit, Star space, Alt (lit ''-'') (lit en_dash), Star space,
            alts [rep 4 digit, lit ''present'', lit ''current''], WordB],
      seqs [WordB,
            alts [lit ''jan'', lit ''feb'', lit ''mar'', lit ''apr'', lit ''may'', lit ''jun'',
                  lit ''jul'', lit ''aug'', lit ''sep'', lit ''oct'', lit ''nov'', lit ''dec''],
            Star wordc, plus_re space, rep 4 digit, WordB]]"

definition check_consistent_formatting :: "string \<Rightarrow> exn + bool" where
  "check_consistent_formatting text =
     (let date_formats = map (\<lambda>pattern. length (re_findall (icase pattern) text))
                           date_format_patterns;
          bullet_types = length (filter id
            [2 < count_sub (bullet_chars ! 0) text, 2 < count_sub (bullet_chars ! 1) text,
             5 < count_sub ''-'' text, 2 < count_sub ''*'' text])
      in bind_exn (py_max date_formats) (\<lambda>most. Inr (2 \<le> most \<and> bullet_types \<le> 2)))"

subsection \<open>The keyword match (\<^verbatim>\<open>_calculate_keyword_match\<close>)\<close>

text \<open>\<^verbatim>\<open>\b[a-z]{4,}\b\<close> for the job description and \<^verbatim>\<open>\b[a-z]{3,}\b\<close> for the resume\<close>

definition jd_word_re :: regex where
  "jd_word_re = seqs [WordB, at_least 4 (Cls lower_chars), WordB]"

definition resume_word_re :: regex where
  "resume_word_re = seqs [WordB, at_least 3 (Cls lower_chars), WordB]"

text \<open>
  The local variables of the source, each as a function of the text it is computed from:
  \<^verbatim>\<open>jd_tech\<close>, \<^verbatim>\<open>jd_words\<close> (after the filler words are taken out) and \<^verbatim>\<open>important_keywords\<close>
  from the job description, \<^verbatim>\<open>resume_words\<close>, \<^verbatim>\<open>resume_tech\<close> and \<^verbatim>\<open>all_resume_terms\<close> from
  the resume text.
\<close>

definition jd_tech :: "string \<Rightarrow> string set" where
  "jd_tech job_description =
     set (filter (\<lambda>term. contains term (lower job_description)) TECH_SKILLS)"

definition jd_words :: "string \<Rightarrow> string set" where
  "jd_words job_description =
     set (re_findall jd_word_re (lower job_description)) - set filler_words"

definition important_keywords :: "string \<Rightarrow> string set" where
  "important_keywords job_description = jd_tech job_description \<union> jd_words job_description"

definition resume_words :: "string \<Rightarrow> string set" where
  "resume_words resume_text = set (re_findall resume_word_re resume_text)"

definition resume_tech :: "string \<Rightarrow> string set" where
  "resume_tech resume_text = set (filter (\<lambda>term. contains term resume_text) TECH_SKILLS)"

definition all_resume_terms :: "string \<Rightarrow> string set" where
  "all_resume_terms resume_text = resume_words resume_text \<union> resume_tech resume_text"

text \<open>\<^verbatim>\<open>matches\<close> and \<^verbatim>\<open>tech_matches\<close>\<close>

definition matches :: "string \<Rightarrow> string \<Rightarrow> string set" where
  "matches resume_text job_description =
     important_keywords job_description \<inter> all_resume_terms resume_text"

definition tech_matches :: "string \<Rightarrow> string \<Rightarrow> string set" where
  "tech_matches resume_text job_description =
     jd_tech job_description \<inter> resume_tech resume_text"

definition calculate_keyword_match :: "string \<Rightarrow> string option \<Rightarrow> exn + real" where
  "calculate_keyword_match resume_text job_description =
     (case job_description of
        None \<Rightarrow> Inr 50
      | Some jd \<Rightarrow>
          if jd = [] then Inr 50
          else if important_keywords jd = {} then Inr 50
          else
            (let tech_weight = card (tech_matches resume_text jd) * 2;
                 total_important = card (important_keywords jd) + card (jd_tech jd);
                 total_matches = card (matches resume_text jd) + tech_weight
             in if total_important = 0 then Inr 50
                else bind_exn (py_div (real total_matches) (real total_important))
                       (\<lambda>ratio. Inr (max 10 (min 95 (ratio * 100))))))"

subsection \<open>The feature dictionary (\<^verbatim>\<open>extract_features\<close>)\<close>

text \<open>
  The dictionary is built entry by entry; an exception raised while an entry is computed
  leaves the function. The entries that hold the result of a division, of \<^verbatim>\<open>max\<close> or of the
  external statistic are therefore computed in the exception monad.
\<close>

definition extract_features ::
  "(string \<Rightarrow> exn + real) \<Rightarrow> string \<Rightarrow> string option \<Rightarrow> exn + features" where
  "extract_features flesch_reading_ease resume_text job_description =
     (let text = lower resume_text;
          original_text = resume_text;
          word_count = count_words text;
          sentence_count = count_sentences text;
          char_count = py_len resume_text
      in bind_exn (py_div (real char_count) (real (max word_count 1))) (\<lambda>chars_per_word.
         bind_exn (py_div chars_per_word (12 / 10)) (\<lambda>avg_word_length.
         bind_exn (py_div (real word_count) (real (max sentence_count 1))) (\<lambda>avg_sentence_length.
         bind_exn (extract_years_experience text) (\<lambda>years_of_experience.
         bind_exn (get_readability_score flesch_reading_ease original_text) (\<lambda>readability_score.
         bind_exn (check_consistent_formatting original_text) (\<lambda>consistent_formatting.
         bind_exn (calculate_keyword_match text job_description) (\<lambda>keyword_match_score.
         Inr (map_of
           [(''total_words'', VInt (int word_count)),
            (''total_sentences'', VInt (int sentence_count)),
            (''total_characters'', VInt (int char_count)),
            (''avg_word_length'', VFloat (py_round avg_word_length 2)),
            (''avg_sentence_length'', VFloat (py_round avg_sentence_length 2)),
            (''total_sections'', VInt (int (count_sections text))),
            (''has_summary'', VBool (has_section text ''summary'')),
            (''has_experience'', VBool (has_section text ''experience'')),
            (''has_education'', VBool (has_section text ''education'')),
            (''has_skills'', VBool (has_section text ''skills'')),
            (''has_projects'', VBool (has_section text ''projects'')),
            (''has_certifications'', VBool (has_section text ''certifications'')),
            (''has_email'', VBool (has_email text)),
            (''has_phone'', VBool (has_phone text)),
            (''has_linkedin'', VBool (has_linkedin text)),
            (''has_github'', VBool (has_github text)),
            (''action_verb_count'', VInt (int (count_action_verbs text))),
            (''quantifiable_metrics'', VInt (int (count_quantifiable_metrics text))),
            (''bullet_point_count'', VInt (int (count_bullet_points original_text))),
            (''technical_terms_count'', VInt (int (count_technical_terms text))),
            (''years_of_experience'', VInt years_of_experience),
            (''number_of_jobs'', VInt (int (count_jobs text))),
            (''has_job_titles'', VBool (has_job_titles text)),
            (''degree_level'', VInt (int (get_degree_level text))),
            (''has_gpa'', VBool (has_gpa text)),
            (''total_skills_mentioned'', VInt (int (count_skills text))),
            (''programming_languages'', VInt (int (count_programming_languages text))),
            (''readability_score'', readability_score),
            (''appropriate_length'', VBool (check_length word_count)),
            (''consistent_formatting'', VBool consistent_formatting),
            (''keyword_match_score'', VFloat keyword_match_score)])))))))))"

section \<open>The suggestion generator (\<^verbatim>\<open>MLService._generate_suggestions\<close>)\<close>

datatype priority = High | Medium | Low

record suggestion =
  category :: string
  priority :: priority
  suggestion :: string

text \<open>\<^verbatim>\<open>priority_order = {'high': 0, 'medium': 1, 'low': 2}\<close>\<close>

fun priority_order :: "priority \<Rightarrow> nat" where
  "priority_order High = 0"
| "priority_order Medium = 1"
| "priority_order Low = 2"

text \<open>\<^verbatim>\<open>', '.join(missing)\<close>\<close>

fun join_comma :: "string list \<Rightarrow> string" where
  "join_comma [] = []"
| "join_comma [x] = x"
| "join_comma (x # y # ys) = x @ '', '' @ join_comma (y # ys)"

text \<open>
  Each rule of the source is an \<^verbatim>\<open>if\<close> that appends at most one suggestion; the rules run
  in the order below.
\<close>

definition keywords_rule :: "features \<Rightarrow> suggestion list" where
  "keywords_rule f =
     (if num (dict_get f ''keyword_match_score'' (VInt 50)) < 60
      then [\<lparr>category = ''keywords'', priority = High,
             suggestion = ''Add more relevant keywords from the job description to your resume''\<rparr>]
      else [])"

definition action_verbs_rule :: "features \<Rightarrow> suggestion list" where
  "action_verbs_rule f =
     (if num (dict_get f ''action_verb_count'' (VInt 0)) < 10
      then [\<lparr>category = ''experience'', priority = High,
             suggestion = ''Use more action verbs (achieved, managed, led, developed, etc.) to describe your accomplishments''\<rparr>]
      else [])"

definition metrics_rule :: "features \<Rightarrow> suggestion list" where
  "metrics_rule f =
     (if num (dict_get f ''quantifiable_metrics'' (VInt 0)) < 5
      then [\<lparr>category = ''experience'', priority = High,
             suggestion = ''Add quantifiable achievements (increased by 30%, managed $2M budget, led team of 10, etc.)''\<rparr>]
      else [])"

definition too_brief :: suggestion where
  "too_brief = \<lparr>category = ''formatting'', priority = Medium,
     suggestion = ''Your resume is too brief. Add more details about your experience and achievements''\<rparr>"

definition too_long :: suggestion where
  "too_long = \<lparr>category = ''formatting'', priority = Medium,
     suggestion = ''Your resume is too long. Focus on the most relevant and recent experience''\<rparr>"

definition length_rule :: "features \<Rightarrow> suggestion list" where
  "length_rule f =
     (if \<not> truthy (dict_get f ''appropriate_length'' (VBool False))
      then (let word_count = num (dict_get f ''total_words'' (VInt 0))
            in if word_count < 300 then [too_brief]
               else if 1000 < word_count then [too_long]
               else [])
      else [])"

definition sections_rule :: "features \<Rightarrow> suggestion list" where
  "sections_rule f =
     (if num (dict_get f ''total_sections'' (VInt 0)) < 4
      then (let missing =
                  (if \<not> truthy (dict_get f ''has_summary'' (VBool False))
                   then [''professional summary''] else [])
                  @ (if \<not> truthy (dict_get f ''has_skills'' (VBool False))
                     then [''skills section''] else [])
            in if missing \<noteq> []
               then [\<lparr>category = ''structure'', priority = Medium,
                      suggestion = ''Add missing sections: '' @ join_comma missing\<rparr>]
               else [])
      else [])"

definition skills_rule :: "features \<Rightarrow> suggestion list" where
  "skills_rule f =
     (if num (dict_get f ''total_skills_mentioned'' (VInt 0)) < 8
      then [\<lparr>category = ''skills'', priority = Medium,
             suggestion = ''List more relevant technical and soft skills (aim for 10-15 skills)''\<rparr>]
      else [])"

definition contact_rule :: "features \<Rightarrow> suggestion list" where
  "contact_rule f =
     (if \<not> truthy (dict_get f ''has_email'' (VBool False))
         \<or> \<not> truthy (dict_get f ''has_phone'' (VBool False))
      then [\<lparr>category = ''structure'', priority = High,
             suggestion = ''Ensure your contact information (email and phone) is clearly visible''\<rparr>]
      else [])"

definition bullets_rule :: "features \<Rightarrow> suggestion list" where
  "bullets_rule f =
     (if num (dict_get f ''bullet_point_count'' (VInt 0)) < 5
      then [\<lparr>category = ''formatting'', priority = Low,
             suggestion = ''Use bullet points to make your experience more readable''\<rparr>]
      else [])"

text \<open>The list \<^verbatim>\<open>suggestions\<close> as it stands before \<^verbatim>\<open>suggestions.sort\<close>.\<close>

definition suggestion_rules :: "features \<Rightarrow> suggestion list" where
  "suggestion_rules f =
     keywords_rule f @ action_verbs_rule f @ metrics_rule f @ length_rule f
     @ sections_rule f @ skills_rule f @ contact_rule f @ bullets_rule f"

text \<open>
  \<^verbatim>\<open>suggestions.sort(key=lambda x: priority_order[x['priority']])\<close> is Python's stable sort,
  here the stable insertion sort \<^const>\<open>sort_key\<close>; \<^verbatim>\<open>suggestions[:8]\<close> is \<^const>\<open>take\<close>. The
  parameter \<^verbatim>\<open>score\<close> is not read by the source.
\<close>

definition generate_suggestions :: "features \<Rightarrow> real \<Rightarrow> suggestion list" where
  "generate_suggestions f score =
     take 8 (sort_key (\<lambda>x. priority_order (priority x)) (suggestion_rules f))"

section \<open>The category breakdown (\<^verbatim>\<open>MLService._generate_breakdown\<close>)\<close>




section \<open>The rule-based fallback scorer (\<^verbatim>\<open>MLService._fallback_prediction\<close>)\<close>





section \<open>Serialising the features (\<^verbatim>\<open>MLService._features_to_array\<close>)\<close>

definition feature_order :: "string list" where
  "feature_order =
     [''total_words'', ''total_sentences'', ''total_characters'',
      ''avg_word_length'', ''avg_sentence_length'', ''total_sections'',
      ''has_summary'', ''has_experience'', ''has_education'', ''has_skills'',
      ''has_projects'', ''has_certifications'', ''has_email'', ''has_phone'',
      ''has_linkedin'', ''has_github'', ''action_verb_count'',
      ''quantifiable_metrics'', ''bullet_point_count'', ''technical_terms_count'',
      ''years_of_experience'', ''number_of_jobs'', ''has_job_titles'',
      ''degree_level'', ''has_gpa'', ''total_skills_mentioned'',
      ''programming_languages'', ''readability_score'', ''appropriate_length'',
      ''consistent_formatting'', ''keyword_match_score'']"



section \<open>Prediction with a loaded model (\<^verbatim>\<open>MLService.predict_ats_score\<close>)\<close>






section \<open>The experience term of the reference scorer (\<^verbatim>\<open>generate_synthetic_data_v2.py\<close>)\<close>

text \<open>
  \<^verbatim>\<open>_nonlinear_experience_score\<close>: the value of the variable \<^verbatim>\<open>exp_base\<close> after the years
  curve, the job progression bonus and the achievements bonus, that is just before the
  job-hopping test.
\<close>

definition exp_base :: "real \<Rightarrow> int \<Rightarrow> int \<Rightarrow> real" where
  "exp_base years num_jobs metrics =
     (let b = (if years < 1 then years * 3
               else if years < 3 then 3 + (years - 1) * 3
               else if years < 7 then 9 + (years - 3) * 2
               else if years < 12 then 17 + (years - 7) * 1
               else 22 + min 3 ((years - 12) * (3 / 10)));
          b = (if 2 \<le> num_jobs \<and> num_jobs \<le> 5 then b + min 3 (of_int num_jobs * (8 / 10))
               else if 5 < num_jobs then b + 3
               else b)
      in b + min 4 (of_int metrics * (4 / 10)))"

definition nonlinear_experience_score :: "real \<Rightarrow> int \<Rightarrow> int \<Rightarrow> bool \<Rightarrow> real" where
  "nonlinear_experience_score years num_jobs metrics job_hopping =
     (let b = exp_base years num_jobs metrics;
          b = (if job_hopping then b * (75 / 100) else b)
      in min 25 b)"

text \<open>
  \<^verbatim>\<open>_calculate_ats_score\<close> derives the flag from the features and passes it on; \<open>exp_score\<close>
  is its variable of that name.
\<close>

definition job_hopping :: "real \<Rightarrow> int \<Rightarrow> bool" where
  "job_hopping years num_jobs = (3 < years \<and> years / (15 / 10) < of_int num_jobs)"

definition exp_score :: "real \<Rightarrow> int \<Rightarrow> int \<Rightarrow> real" where
  "exp_score years num_jobs metrics =
     nonlinear_experience_score years num_jobs metrics (job_hopping years num_jobs)"

section \<open>Concrete inputs\<close>


text \<open>
  The two length features as \<^verbatim>\<open>extract_features\<close> stores them for a text of 280 words
  (\<^verbatim>\<open>_check_length\<close> accepts 250 to 900 words), and for texts of 120 and of 1500 words.
\<close>

definition resume_280_words :: features where
  "resume_280_words = [''total_words'' \<mapsto> VInt 280, ''appropriate_length'' \<mapsto> VBool True]"

definition resume_120_words :: features where
  "resume_120_words = [''total_words'' \<mapsto> VInt 120, ''appropriate_length'' \<mapsto> VBool False]"

definition resume_1500_words :: features where
  "resume_1500_words = [''total_words'' \<mapsto> VInt 1500, ''appropriate_length'' \<mapsto> VBool False]"



text \<open>
  A job description with two technical terms spelled out (the vocabulary entry \<^verbatim>\<open>r\<close> is a
  third: it is a substring of the text), and two resume texts, the second with one more of
  its words.
\<close>

definition jd_python_docker :: string where
  "jd_python_docker = ''python docker engineer''"

definition resume_python :: string where
  "resume_python = ''python developer''"

definition resume_python_docker :: string where
  "resume_python_docker = ''python developer docker''"

text \<open>Texts that name degrees.\<close>

definition text_bachelors_masters :: string where
  "text_bachelors_masters = ''Bachelor's and Master's''"

definition text_phd_masters_bachelors :: string where
  "text_phd_masters_bachelors = ''PhD, Master's, Bachelor's''"

definition text_webmasters_bachelors :: string where
  "text_webmasters_bachelors = ''WebMaster's Bachelor's''"

text \<open>A readability statistic that raises on every text.\<close>

definition failing_statistic :: "string \<Rightarrow> exn + real" where
  "failing_statistic text = Inl (Exception ''ZeroDivisionError'')"

section \<open>Properties of the suggestion generator\<close>

lemma rule_lengths:
  "length (keywords_rule f) \<le> 1" "length (action_verbs_rule f) \<le> 1"
  "length (metrics_rule f) \<le> 1" "length (length_rule f) \<le> 1"
  "length (sections_rule f) \<le> 1" "length (skills_rule f) \<le> 1"
  "length (contact_rule f) \<le> 1" "length (bullets_rule f) \<le> 1"
  by (simp_all add: keywords_rule_def action_verbs_rule_def metrics_rule_def
      length_rule_def sections_rule_def skills_rule_def contact_rule_def bullets_rule_def Let_def)

lemma length_suggestion_rules: "length (suggestion_rules f) \<le> 8"
  using rule_lengths[of f] by (simp add: suggestion_rules_def)

text \<open>Eight rules append at most eight suggestions, so the slice \<^verbatim>\<open>[:8]\<close> never drops one.\<close>

lemma generate_suggestions_untruncated:
  "generate_suggestions f score =
     sort_key (\<lambda>x. priority_order (priority x)) (suggestion_rules f)"
  using length_suggestion_rules[of f] by (simp add: generate_suggestions_def)


lemma set_generate_suggestions: "set (generate_suggestions f score) = set (suggestion_rules f)"
  by (simp add: generate_suggestions_untruncated)



text \<open>
  Claim C3, as stated, fails: a dictionary with 280 words, below the range \<open>[300, 1000]\<close>, whose
  \<^verbatim>\<open>appropriate_length\<close> flag is true (as \<^verbatim>\<open>_check_length\<close> sets it from 250 words on) gets
  no medium-priority formatting suggestion at all.
\<close>

lemma resume_280_rules:
  "suggestion_rules resume_280_words =
     keywords_rule resume_280_words @ action_verbs_rule resume_280_words
     @ metrics_rule resume_280_words @ sections_rule resume_280_words
     @ skills_rule resume_280_words @ contact_rule resume_280_words
     @ bullets_rule resume_280_words"
  by (simp add: suggestion_rules_def length_rule_def resume_280_words_def dict_get_def)

theorem length_suggestion_gated_counterexample:
  "num (dict_get resume_280_words ''total_words'' (VInt 0)) < 300
   \<and> filter (\<lambda>s. category s = ''formatting'' \<and> priority s = Medium)
        (generate_suggestions resume_280_words 0) = []"
proof -
  have "filter (\<lambda>s. category s = ''formatting'' \<and> priority s = Medium)
          (suggestion_rules resume_280_words) = []"
    by (simp add: resume_280_rules keywords_rule_def action_verbs_rule_def metrics_rule_def
        sections_rule_def skills_rule_def contact_rule_def bullets_rule_def Let_def)
  then have "\<forall>s \<in> set (suggestion_rules resume_280_words).
      \<not> (category s = ''formatting'' \<and> priority s = Medium)"
    by (simp add: filter_empty_conv)
  then have "filter (\<lambda>s. category s = ''formatting'' \<and> priority s = Medium)
      (generate_suggestions resume_280_words 0) = []"
    unfolding filter_empty_conv set_generate_suggestions by simp
  then show ?thesis by (simp add: resume_280_words_def dict_get_def)
qed

text \<open>
  Claim C3, amended. For every feature dictionary whose \<^verbatim>\<open>appropriate_length\<close> entry is
  false, zero or missing and whose \<^verbatim>\<open>total_words\<close> lies outside \<open>[300, 1000]\<close>, the generator
  emits a medium-priority formatting suggestion: the "too brief" message below 300 words,
  the "too long" message above 1000.
\<close>

theorem length_suggestion_gated:
  "\<not> truthy (dict_get f ''appropriate_length'' (VBool False)) \<Longrightarrow>
   category too_brief = ''formatting'' \<and> priority too_brief = Medium
   \<and> category too_long = ''formatting'' \<and> priority too_long = Medium
   \<and> suggestion too_brief \<noteq> suggestion too_long
   \<and> (num (dict_get f ''total_words'' (VInt 0)) < 300
        \<longrightarrow> too_brief \<in> set (generate_suggestions f score))
   \<and> (1000 < num (dict_get f ''total_words'' (VInt 0))
        \<longrightarrow> too_long \<in> set (generate_suggestions f score))"
  by (simp add: set_generate_suggestions suggestion_rules_def length_rule_def Let_def
      too_brief_def too_long_def)

theorem length_suggestion_gated_witness:
  "\<not> truthy (dict_get resume_120_words ''appropriate_length'' (VBool False))
   \<and> num (dict_get resume_120_words ''total_words'' (VInt 0)) < 300
   \<and> too_brief \<in> set (generate_suggestions resume_120_words 0)
   \<and> \<not> truthy (dict_get resume_1500_words ''appropriate_length'' (VBool False))
   \<and> 1000 < num (dict_get resume_1500_words ''total_words'' (VInt 0))
   \<and> too_long \<in> set (generate_suggestions resume_1500_words 0)"
proof -
  have a: "\<not> truthy (dict_get resume_120_words ''appropriate_length'' (VBool False))"
    and b: "num (dict_get resume_120_words ''total_words'' (VInt 0)) < 300"
    by (simp_all add: resume_120_words_def dict_get_def)
  have c: "\<not> truthy (dict_get resume_1500_words ''appropriate_length'' (VBool False))"
    and d: "1000 < num (dict_get resume_1500_words ''total_words'' (VInt 0))"
    by (simp_all add: resume_1500_words_def dict_get_def)
  note t = length_suggestion_gated[OF a, of 0]
  note u = length_suggestion_gated[OF c, of 0]
  note brief = t[THEN conjunct2, THEN conjunct2, THEN conjunct2, THEN conjunct2,
      THEN conjunct2, THEN conjunct1, THEN mp, OF b]
  note long = u[THEN conjunct2, THEN conjunct2, THEN conjunct2, THEN conjunct2,
      THEN conjunct2, THEN conjunct2, THEN mp, OF d]
  show ?thesis using a b c d brief long by (intro conjI)
qed

section \<open>Properties of the fallback scorer\<close>





section \<open>Properties of the serialisation\<close>




section \<open>Properties of the prediction entry point\<close>



section \<open>Properties of the reference scorer's experience term\<close>

lemma exp_score_values:
  "exp_score 6 5 0 = 27 / 2" "exp_score 6 1 0 = 15"
  "exp_score 20 14 10 = 471 / 20" "exp_score 20 6 10 = 25"
  by (simp_all add: exp_score_def job_hopping_def nonlinear_experience_score_def exp_base_def
      Let_def)

text \<open>
  Claim C4, as stated, fails. With 6 years and 5 jobs (flagged) the experience term is 13.5;
  with the same years and metrics and 1 job (not flagged) it is 15, and 0.75 times 15 is
  11.25: the job-count bonus is part of the term. With 20 years and 10 metrics, 14 jobs
  (flagged) give 23.55 and 6 jobs (not flagged, same bonus) give 25, the cap, and 0.75 times
  25 is 18.75: the multiplier is applied before the cap.
\<close>

theorem job_hopping_multiplier_counterexample:
  "job_hopping 6 5 \<and> \<not> job_hopping 6 1
   \<and> exp_score 6 5 0 \<noteq> 75 / 100 * exp_score 6 1 0
   \<and> job_hopping 20 14 \<and> \<not> job_hopping 20 6
   \<and> exp_score 20 14 10 \<noteq> 75 / 100 * exp_score 20 6 10"
  by (simp add: exp_score_values) (simp add: job_hopping_def)

text \<open>
  Claim C4, amended. For every years, job count and metrics with years above 3 and the job
  count above years/1.5, the job-hopping flag is set and the experience term is the cap at
  25 of 0.75 times the unpenalised sum (years curve, plus the bonus of that same job count,
  plus the metrics bonus), where the unflagged computation on the same three inputs is the
  cap at 25 of that sum; so the term is 0.75 times the unflagged one whenever the sum is at
  most 25. In particular 6 years with 5 jobs sets the flag.
\<close>

theorem job_hopping_multiplier:
  "(3 < years \<and> years / (15 / 10) < of_int num_jobs \<longrightarrow>
      job_hopping years num_jobs
      \<and> exp_score years num_jobs metrics = min 25 (75 / 100 * exp_base years num_jobs metrics)
      \<and> nonlinear_experience_score years num_jobs metrics False
          = min 25 (exp_base years num_jobs metrics)
      \<and> (exp_base years num_jobs metrics \<le> 25 \<longrightarrow>
            exp_score years num_jobs metrics
              = 75 / 100 * nonlinear_experience_score years num_jobs metrics False))
   \<and> job_hopping 6 5"
  by (auto simp add: job_hopping_def exp_score_def nonlinear_experience_score_def Let_def
      min_def)

theorem job_hopping_multiplier_witness:
  "(3 :: real) < 6 \<and> (6 :: real) / (15 / 10) < of_int 5
   \<and> exp_base 6 5 0 \<le> 25
   \<and> job_hopping 6 5
   \<and> exp_score 6 5 0 = 75 / 100 * nonlinear_experience_score 6 5 0 False"
proof -
  have a: "exp_base 6 5 0 \<le> 25" by (simp add: exp_base_def Let_def)
  show ?thesis using a job_hopping_multiplier[of 6 5 0] by simp
qed

section \<open>Properties of the matcher\<close>

text \<open>
  The counter of \<open>star_states\<close> only makes the recursion structural: once it is at least the
  number of characters left, a larger one gives the same states.
\<close>

lemma star_states_Suc:
  "remaining st \<le> n \<Longrightarrow> star_states m greedy (Suc n) st = star_states m greedy n st"
proof (induction n arbitrary: st)
  case 0
  then show ?case by simp
next
  case (Suc n)
  have eq: "map (star_states m greedy (Suc n))
              (filter (\<lambda>st'. remaining st' < remaining st) (m st))
      = map (star_states m greedy n) (filter (\<lambda>st'. remaining st' < remaining st) (m st))"
  proof (rule map_cong[OF refl])
    fix x
    assume "x \<in> set (filter (\<lambda>st'. remaining st' < remaining st) (m st))"
    then have "remaining x \<le> n" using Suc.prems by auto
    then show "star_states m greedy (Suc n) x = star_states m greedy n x" by (rule Suc.IH)
  qed
  show ?case by (simp only: star_states.simps(2) eq)
qed

lemma star_states_enough:
  "remaining st \<le> n \<Longrightarrow> star_states m greedy n st = star_states m greedy (remaining st) st"
proof (induction n)
  case 0
  then show ?case by simp
next
  case (Suc n)
  show ?case
  proof (cases "remaining st = Suc n")
    case True
    then show ?thesis by simp
  next
    case False
    then have "remaining st \<le> n" using Suc.prems by simp
    then show ?thesis using Suc.IH star_states_Suc[of st n m greedy] by simp
  qed
qed

text \<open>
  A match never moves backwards and never changes the text, so every text that
  \<^verbatim>\<open>re.findall\<close> returns is a substring of the text searched.
\<close>

lemma extends_refl: "extends st st"
  by (simp add: extends_def)

lemma extends_trans: "extends a b \<Longrightarrow> extends b c \<Longrightarrow> extends a c"
  unfolding extends_def
proof -
  assume "\<exists>m. fst b = rev m @ fst a \<and> fst (snd a) = m @ fst (snd b)"
    and "\<exists>m. fst c = rev m @ fst b \<and> fst (snd b) = m @ fst (snd c)"
  then obtain m n where m: "fst b = rev m @ fst a" "fst (snd a) = m @ fst (snd b)"
    and n: "fst c = rev n @ fst b" "fst (snd b) = n @ fst (snd c)" by blast
  have "fst c = rev (m @ n) @ fst a \<and> fst (snd a) = (m @ n) @ fst (snd c)"
    using m n by simp
  then show "\<exists>m. fst c = rev m @ fst a \<and> fst (snd a) = m @ fst (snd c)" by blast
qed

lemma star_states_extends:
  assumes step: "\<And>st st'. st' \<in> set (m st) \<Longrightarrow> extends st st'"
  shows "st' \<in> set (star_states m greedy n st) \<Longrightarrow> extends st st'"
proof (induction n arbitrary: st st')
  case 0
  then show ?case by (simp add: extends_refl)
next
  case (Suc n)
  from Suc.prems consider "st' = st"
    | mid where "mid \<in> set (m st)" "st' \<in> set (star_states m greedy n mid)"
    by (auto simp: Let_def split: if_splits)
  then show ?case
  proof cases
    case 1
    then show ?thesis by (simp add: extends_refl)
  next
    case 2
    then show ?thesis using step[of mid st] Suc.IH[of st' mid] extends_trans by blast
  qed
qed

lemma rmatch_extends: "st' \<in> set (rmatch p st) \<Longrightarrow> extends st st'"
proof (induction p arbitrary: st st')
  case (Cls cs)
  then show ?case by (auto simp: extends_def split: prod.splits list.splits if_splits)
next
  case (NotCls cs)
  then show ?case by (auto simp: extends_def split: prod.splits list.splits if_splits)
next
  case (Seq a b)
  from Seq.prems obtain mid where "mid \<in> set (rmatch a st)" "st' \<in> set (rmatch b mid)"
    by auto
  then show ?case using Seq.IH(1)[of mid st] Seq.IH(2)[of st' mid] extends_trans by blast
next
  case (Star a)
  then show ?case using star_states_extends[of "rmatch a"] by auto
next
  case (LazyStar a)
  then show ?case using star_states_extends[of "rmatch a"] by auto
next
  case (Group a)
  then show ?case by (fastforce simp: extends_def split: prod.splits)
qed (auto simp: extends_refl split: prod.splits if_splits)

lemma startswith_iff: "startswith t p = (\<exists>b. t = p @ b)"
  by (induction t p rule: startswith.induct) auto

lemma contains_iff: "contains p t = (\<exists>a b. t = a @ p @ b)"
proof (induction t)
  case Nil
  then show ?case by auto
next
  case (Cons c cs)
  show ?case
  proof
    assume "contains p (c # cs)"
    then consider "startswith (c # cs) p" | "contains p cs" by (auto split: if_splits)
    then show "\<exists>a b. c # cs = a @ p @ b"
    proof cases
      case 1
      then obtain b where "c # cs = p @ b" by (auto simp: startswith_iff)
      then have "c # cs = [] @ p @ b" by simp
      then show ?thesis by blast
    next
      case 2
      then obtain a b where "cs = a @ p @ b" using Cons by auto
      then have "c # cs = (c # a) @ p @ b" by simp
      then show ?thesis by blast
    qed
  next
    assume "\<exists>a b. c # cs = a @ p @ b"
    then obtain a b where ab: "c # cs = a @ p @ b" by blast
    show "contains p (c # cs)"
    proof (cases a)
      case Nil
      then have "startswith (c # cs) p" using ab by (auto simp: startswith_iff)
      then show ?thesis by simp
    next
      case (Cons x xs)
      then have "cs = xs @ p @ b" using ab by simp
      then have "contains p cs" using Cons.IH by blast
      then show ?thesis by simp
    qed
  qed
qed

lemma first_match_prefix:
  assumes "rmatch p (l, r, []) = (l', r', g) # others"
  shows "r = rev (take (length l' - length l) l') @ r'"
proof -
  have "extends (l, r, []) (l', r', g)"
    using assms rmatch_extends[of "(l', r', g)" p "(l, r, [])"] by simp
  then obtain m where "l' = rev m @ l" "r = m @ r'" by (auto simp: extends_def)
  then show ?thesis by simp
qed

lemma find_from_substring:
  "(m, g) \<in> set (find_from p l r) \<Longrightarrow> \<exists>a b. r = a @ m @ b"
proof (induction p l r arbitrary: m g rule: find_from.induct)
  case (1 p l)
  then obtain l' r' others where f: "rmatch p (l, [], []) = (l', r', g) # others"
    and m: "m = rev (take (length l' - length l) l')"
    by (cases "rmatch p (l, [], [])") (auto split: prod.splits)
  have "[] = [] @ m @ r'" using first_match_prefix[OF f] m by simp
  then show ?case by blast
next
  case (2 p l c cs)
  show ?case
  proof (cases "rmatch p (l, c # cs, [])")
    case Nil
    then have "(m, g) \<in> set (find_from p (c # l) cs)" using 2(4) by simp
    then obtain a b where "cs = a @ m @ b" using 2(1)[OF Nil] by blast
    then have "c # cs = (c # a) @ m @ b" by simp
    then show ?thesis by blast
  next
    case (Cons st others)
    obtain l' r' g' where st: "st = (l', r', g')" by (cases st) auto
    note first = first_match_prefix[OF Cons[unfolded st]]
    let ?m0 = "rev (take (length l' - length l) l')"
    from 2(4) Cons st consider
        "m = ?m0"
      | "length r' < length (c # cs)" "(m, g) \<in> set (find_from p l' r')"
      | "\<not> length r' < length (c # cs)" "(m, g) \<in> set (find_from p (c # l) cs)"
      by (auto split: if_splits)
    then show ?thesis
    proof cases
      case 1
      then have "c # cs = [] @ m @ r'" using first by simp
      then show ?thesis by blast
    next
      case 2
      then obtain a b where "r' = a @ m @ b"
        using "2.IH"(2)[OF Cons st[symmetric] refl 2(1) 2(2)] by blast
      then have "c # cs = (?m0 @ a) @ m @ b" using first by simp
      then show ?thesis by blast
    next
      case 3
      then obtain a b where "cs = a @ m @ b"
        using "2.IH"(3)[OF Cons st[symmetric] refl 3(1) 3(2)] by blast
      then have "c # cs = (c # a) @ m @ b" by simp
      then show ?thesis by blast
    qed
  qed
qed

lemma findall_contains: "w \<in> set (re_findall p t) \<Longrightarrow> contains w t"
  unfolding re_findall_def contains_iff using find_from_substring by fastforce

lemma resume_words_tech: "w \<in> resume_words rt \<Longrightarrow> w \<in> set TECH_SKILLS \<Longrightarrow> w \<in> resume_tech rt"
  by (simp add: resume_words_def resume_tech_def findall_contains)

lemma tech_matches_eq: "tech_matches rt jd = matches rt jd \<inter> jd_tech jd"
proof -
  have "jd_tech jd \<subseteq> set TECH_SKILLS" by (auto simp: jd_tech_def)
  then show ?thesis
    using resume_words_tech[of _ rt]
    by (auto simp: tech_matches_def matches_def important_keywords_def all_resume_terms_def)
qed

section \<open>Properties of the keyword match\<close>

lemma important_keywords_empty_text: "important_keywords [] = {}"
  by code_simp

lemma finite_keyword_sets:
  "finite (important_keywords jd)" "finite (jd_tech jd)"
  "finite (matches rt jd)" "finite (tech_matches rt jd)"
  by (simp_all add: important_keywords_def jd_tech_def jd_words_def matches_def tech_matches_def)

lemma keyword_match_none: "calculate_keyword_match rt None = Inr 50"
  by (simp add: calculate_keyword_match_def)

lemma keyword_match_no_keywords:
  "important_keywords jd = {} \<Longrightarrow> calculate_keyword_match rt (Some jd) = Inr 50"
  by (simp add: calculate_keyword_match_def)

lemma keyword_match_ratio:
  assumes "important_keywords jd \<noteq> {}"
  shows "calculate_keyword_match rt (Some jd) =
     Inr (max 10 (min 95 (real (card (matches rt jd) + 2 * card (tech_matches rt jd))
                           / real (card (important_keywords jd) + card (jd_tech jd)) * 100)))"
proof -
  have ne: "jd \<noteq> []" using assms important_keywords_empty_text by auto
  have c: "0 < card (important_keywords jd)"
    using assms finite_keyword_sets(1)[of jd] by (simp add: card_gt_0_iff)
  then have "0 < real (card (important_keywords jd)) + real (card (jd_tech jd))" by simp
  then have pos: "real (card (important_keywords jd)) + real (card (jd_tech jd)) \<noteq> 0"
    and nz: "card (important_keywords jd) \<noteq> 0"
    using c by simp_all
  show ?thesis
    using ne assms pos nz
    by (simp add: calculate_keyword_match_def Let_def py_div_def bind_exn_def mult.commute)
qed

lemma keyword_match_range:
  "\<exists>s. calculate_keyword_match rt jdo = Inr s \<and> 10 \<le> s \<and> s \<le> 95"
proof (cases jdo)
  case None
  then show ?thesis by (simp add: keyword_match_none)
next
  case (Some jd)
  show ?thesis
  proof (cases "important_keywords jd = {}")
    case True
    then show ?thesis using Some by (simp add: keyword_match_no_keywords)
  next
    case False
    then show ?thesis using Some by (simp add: keyword_match_ratio)
  qed
qed

lemma keyword_match_mono:
  assumes "matches rt jd \<subseteq> matches rt' jd" "tech_matches rt jd \<subseteq> tech_matches rt' jd"
  shows "\<exists>s s'. calculate_keyword_match rt (Some jd) = Inr s
           \<and> calculate_keyword_match rt' (Some jd) = Inr s' \<and> s \<le> s'"
proof (cases "important_keywords jd = {}")
  case True
  then show ?thesis by (simp add: keyword_match_no_keywords)
next
  case False
  have a: "card (matches rt jd) \<le> card (matches rt' jd)"
    using assms(1) finite_keyword_sets(3) by (simp add: card_mono)
  have b: "card (tech_matches rt jd) \<le> card (tech_matches rt' jd)"
    using assms(2) finite_keyword_sets(4) by (simp add: card_mono)
  have "real (card (matches rt jd) + 2 * card (tech_matches rt jd))
        \<le> real (card (matches rt' jd) + 2 * card (tech_matches rt' jd))"
    using a b by simp
  then have "real (card (matches rt jd) + 2 * card (tech_matches rt jd))
              / real (card (important_keywords jd) + card (jd_tech jd)) * 100
        \<le> real (card (matches rt' jd) + 2 * card (tech_matches rt' jd))
              / real (card (important_keywords jd) + card (jd_tech jd)) * 100"
    by (intro mult_right_mono divide_right_mono) simp_all
  then show ?thesis
    using False by (simp add: keyword_match_ratio)
qed

lemma example_keyword_sets:
  "card (matches resume_python jd_python_docker) = 2"
  "card (tech_matches resume_python jd_python_docker) = 2"
  "card (important_keywords jd_python_docker) = 4"
  "card (jd_tech jd_python_docker) = 3"
  by code_simp+

lemma example_keywords_nonempty: "important_keywords jd_python_docker \<noteq> {}"
  using example_keyword_sets(3) by auto

lemma example_overlap_grows:
  "matches resume_python jd_python_docker \<subseteq> matches resume_python_docker jd_python_docker"
  "tech_matches resume_python jd_python_docker
     \<subseteq> tech_matches resume_python_docker jd_python_docker"
  by code_simp+

text \<open>
  Claim C1. For every resume text and job description the keyword match returns, without
  raising, exactly 50 when the job description is absent (\<^verbatim>\<open>None\<close>, and likewise the empty
  text) and exactly 50 when the set of important keywords is empty; otherwise it returns the
  ratio of the keyword matches plus twice the technical matches to the number of important
  keywords plus the number of technical terms of the job description, times 100, clamped
  to \<open>[10, 95]\<close>. So the score always lies in \<open>[10, 95]\<close>.
\<close>

theorem keyword_match_score:
  "calculate_keyword_match rt None = Inr 50
   \<and> calculate_keyword_match rt (Some []) = Inr 50
   \<and> (important_keywords jd = {} \<longrightarrow> calculate_keyword_match rt (Some jd) = Inr 50)
   \<and> (important_keywords jd \<noteq> {} \<longrightarrow>
        calculate_keyword_match rt (Some jd) =
          Inr (max 10 (min 95
                 (real (card (matches rt jd) + 2 * card (tech_matches rt jd))
                  / real (card (important_keywords jd) + card (jd_tech jd)) * 100))))
   \<and> (\<exists>s. calculate_keyword_match rt jdo = Inr s \<and> 10 \<le> s \<and> s \<le> 95)"
proof -
  have "calculate_keyword_match rt (Some []) = Inr 50"
    by (simp add: calculate_keyword_match_def)
  then show ?thesis
    using keyword_match_none keyword_match_no_keywords keyword_match_ratio
      keyword_match_range
    by blast
qed

theorem keyword_match_score_witness:
  "important_keywords jd_python_docker \<noteq> {}
   \<and> calculate_keyword_match resume_python (Some jd_python_docker) = Inr (600 / 7)"
proof -
  note t = keyword_match_score[of resume_python jd_python_docker None]
  note r = t[THEN conjunct2, THEN conjunct2, THEN conjunct2, THEN conjunct1, THEN mp,
      OF example_keywords_nonempty]
  have "calculate_keyword_match resume_python (Some jd_python_docker) = Inr (600 / 7)"
    unfolding r example_keyword_sets by simp
  then show ?thesis using example_keywords_nonempty by (intro conjI)
qed

text \<open>
  Claim C6. With the job description fixed, if the set of resume terms that overlap the
  important keywords of the job description (the set \<^verbatim>\<open>matches\<close> of the source) of one resume
  text is contained in that of another, then the keyword match score of the second text is
  not lower. With no job description the score does not depend on the resume.
\<close>

theorem keyword_match_monotone:
  "(matches rt jd \<subseteq> matches rt' jd \<longrightarrow>
      (\<exists>s s'. calculate_keyword_match rt (Some jd) = Inr s
         \<and> calculate_keyword_match rt' (Some jd) = Inr s' \<and> s \<le> s'))
   \<and> calculate_keyword_match rt None = calculate_keyword_match rt' None"
proof -
  have "tech_matches rt jd \<subseteq> tech_matches rt' jd" if "matches rt jd \<subseteq> matches rt' jd"
    using that unfolding tech_matches_eq by blast
  then show ?thesis
    using keyword_match_mono[of rt jd rt'] by (simp add: keyword_match_none)
qed

theorem keyword_match_monotone_witness:
  "matches resume_python jd_python_docker \<subseteq> matches resume_python_docker jd_python_docker
   \<and> (\<exists>s s'. calculate_keyword_match resume_python (Some jd_python_docker) = Inr s
         \<and> calculate_keyword_match resume_python_docker (Some jd_python_docker) = Inr s'
         \<and> s \<le> s')"
proof -
  note t = keyword_match_monotone[of resume_python jd_python_docker resume_python_docker]
  note r = t[THEN conjunct1, THEN mp, OF example_overlap_grows(1)]
  show ?thesis using example_overlap_grows(1) r by (intro conjI)
qed

section \<open>Properties of the degree level\<close>

lemma tier_matches_iff:
  "tier_matches patterns text = list_ex (\<lambda>pattern. re_search (icase pattern) text) patterns"
  by (induction patterns) simp_all

lemma degree_patterns_tiers:
  "degree_patterns = [(5, tier 5), (4, tier 4), (3, tier 3), (2, tier 2), (1, tier 1)]"
  by (simp add: tier_def degree_patterns_def)

lemma get_degree_level_ladder:
  "get_degree_level text =
     (if tier_matches (tier 5) text then 5
      else if tier_matches (tier 4) text then 4
      else if tier_matches (tier 3) text then 3
      else if tier_matches (tier 2) text then 2
      else if tier_matches (tier 1) text then 1
      else 0)"
  unfolding get_degree_level_def degree_patterns_tiers by simp

lemma example_degree_levels:
  "get_degree_level text_bachelors_masters = 4"
  "get_degree_level text_phd_masters_bachelors = 5"
  "get_degree_level text_webmasters_bachelors = 3"
  by code_simp+

lemma example_degree_contains:
  "contains ''Bachelor's'' text_phd_masters_bachelors"
  "contains ''Master's'' text_phd_masters_bachelors"
  "contains ''Bachelor's'' text_webmasters_bachelors"
  "contains ''Master's'' text_webmasters_bachelors"
  by code_simp+

lemma example_degree_tiers:
  "list_ex (\<lambda>pattern. re_search (icase pattern) text_bachelors_masters) (tier 4)"
  "\<not> list_ex (\<lambda>pattern. re_search (icase pattern) text_bachelors_masters) (tier 5)"
  by code_simp+

text \<open>
  Claim C5, as stated, fails in its last part. The text \<^verbatim>\<open>PhD, Master's, Bachelor's\<close>
  contains both \<^verbatim>\<open>Bachelor's\<close> and \<^verbatim>\<open>Master's\<close>, and its degree level is 5, not 4, because the
  PhD tier is tried first. The text \<^verbatim>\<open>WebMaster's Bachelor's\<close> contains both as well, and its
  degree level is 3: inside a word, \<^verbatim>\<open>Master's\<close> matches no pattern of the Master's tier.
\<close>

theorem degree_level_ladder_counterexample:
  "contains ''Bachelor's'' text_phd_masters_bachelors
   \<and> contains ''Master's'' text_phd_masters_bachelors
   \<and> get_degree_level text_phd_masters_bachelors = 5
   \<and> contains ''Bachelor's'' text_webmasters_bachelors
   \<and> contains ''Master's'' text_webmasters_bachelors
   \<and> get_degree_level text_webmasters_bachelors = 3"
  using example_degree_contains example_degree_levels by (intro conjI)

text \<open>
  Claim C5, amended. For every input text, the degree-level extractor scans the five pattern
  tiers in fixed order from PhD (5) down to high school (1) and returns the level of the
  first tier with any matching pattern, or 0 when no tier matches; consequently the level is
  always in \<open>{0, 1, 2, 3, 4, 5}\<close>; and a text in which a pattern of the Master's tier matches
  and no pattern of the PhD tier does yields 4, whether or not a pattern of the Bachelor's
  tier matches as well, as the text \<^verbatim>\<open>Bachelor's and Master's\<close> does.
\<close>

theorem degree_level_ladder:
  "get_degree_level text =
     (if list_ex (\<lambda>pattern. re_search (icase pattern) text) (tier 5) then 5
      else if list_ex (\<lambda>pattern. re_search (icase pattern) text) (tier 4) then 4
      else if list_ex (\<lambda>pattern. re_search (icase pattern) text) (tier 3) then 3
      else if list_ex (\<lambda>pattern. re_search (icase pattern) text) (tier 2) then 2
      else if list_ex (\<lambda>pattern. re_search (icase pattern) text) (tier 1) then 1
      else 0)
   \<and> get_degree_level text \<in> {0, 1, 2, 3, 4, 5}
   \<and> (list_ex (\<lambda>pattern. re_search (icase pattern) text) (tier 4)
        \<and> \<not> list_ex (\<lambda>pattern. re_search (icase pattern) text) (tier 5)
        \<longrightarrow> get_degree_level text = 4)
   \<and> get_degree_level text_bachelors_masters = 4"
  unfolding tier_matches_iff[symmetric]
  using example_degree_levels(1) by (simp add: get_degree_level_ladder)

theorem degree_level_ladder_witness:
  "list_ex (\<lambda>pattern. re_search (icase pattern) text_bachelors_masters) (tier 4)
   \<and> \<not> list_ex (\<lambda>pattern. re_search (icase pattern) text_bachelors_masters) (tier 5)
   \<and> get_degree_level text_bachelors_masters = 4"
proof -
  note t = degree_level_ladder[of text_bachelors_masters]
  note r = t[THEN conjunct2, THEN conjunct2, THEN conjunct1, THEN mp, OF conjI,
      OF example_degree_tiers]
  show ?thesis using example_degree_tiers r by (intro conjI)
qed

section \<open>Properties of the feature extraction\<close>

lemma py_max_nonempty: "xs \<noteq> [] \<Longrightarrow> \<exists>m. py_max xs = Inr m"
  by (cases xs) (simp_all add: py_max_def)

lemma extract_years_total: "\<exists>y. extract_years_experience text = Inr y"
  unfolding extract_years_experience_def Let_def
  by (simp add: py_max_nonempty)

lemma consistent_formatting_total: "\<exists>b. check_consistent_formatting text = Inr b"
  by (simp add: check_consistent_formatting_def Let_def date_format_patterns_def py_max_def
      bind_exn_def)

lemma readability_total:
  "\<exists>v. get_readability_score flesch text = Inr v
       \<and> (\<forall>e. flesch text = Inl e \<longrightarrow> v = VInt 60)"
  by (cases "flesch text") (simp_all add: get_readability_score_def try_except_def bind_exn_def)

lemma keyword_match_total: "\<exists>s. calculate_keyword_match rt jdo = Inr s"
  using keyword_match_range[of rt jdo] by blast

lemma example_empty_text:
  "count_words (lower []) = 0" "count_sentences (lower []) = 0" "py_len [] = 0"
  by code_simp+

text \<open>
  Claim C8. Feature extraction is total: for every resume text, every job description
  (or none) and every behaviour of the readability statistic, \<^verbatim>\<open>extract_features\<close> returns a
  dictionary, with exactly the 31 feature names as its keys, and raises nothing. The two
  average-length ratios divide by the larger of the count and 1, and when the readability
  statistic raises, the readability score is the default 60.
\<close>

theorem extract_features_total:
  "\<exists>fv. extract_features flesch rt jdo = Inr fv
     \<and> dom fv = set feature_order
     \<and> fv ''avg_word_length''
         = Some (VFloat (py_round (real (py_len rt) / real (max (count_words (lower rt)) 1)
                                     / (12 / 10)) 2))
     \<and> fv ''avg_sentence_length''
         = Some (VFloat (py_round (real (count_words (lower rt))
                                     / real (max (count_sentences (lower rt)) 1)) 2))
     \<and> (\<forall>e. flesch rt = Inl e \<longrightarrow> fv ''readability_score'' = Some (VInt 60))"
proof -
  obtain y where y: "extract_years_experience (lower rt) = Inr y"
    using extract_years_total by blast
  obtain b where b: "check_consistent_formatting rt = Inr b"
    using consistent_formatting_total by blast
  obtain v where v: "get_readability_score flesch rt = Inr v"
    and v60: "\<forall>e. flesch rt = Inl e \<longrightarrow> v = VInt 60"
    using readability_total by blast
  obtain s where s: "calculate_keyword_match (lower rt) jdo = Inr s"
    using keyword_match_total by blast
  show ?thesis
    unfolding extract_features_def Let_def
    using v60 by (simp add: y b v s py_div_def bind_exn_def feature_order_def)
qed

theorem extract_features_total_witness:
  "\<exists>fv. extract_features failing_statistic [] None = Inr fv
     \<and> fv ''avg_word_length'' = Some (VFloat 0)
     \<and> fv ''avg_sentence_length'' = Some (VFloat 0)
     \<and> fv ''readability_score'' = Some (VInt 60)"
proof -
  obtain fv where fv: "extract_features failing_statistic [] None = Inr fv"
    and w: "fv ''avg_word_length''
         = Some (VFloat (py_round (real (py_len []) / real (max (count_words (lower [])) 1)
                                     / (12 / 10)) 2))"
    and s: "fv ''avg_sentence_length''
         = Some (VFloat (py_round (real (count_words (lower []))
                                     / real (max (count_sentences (lower [])) 1)) 2))"
    and r: "\<forall>e. failing_statistic [] = Inl e \<longrightarrow> fv ''readability_score'' = Some (VInt 60)"
    using extract_features_total[of failing_statistic "[]" None] by blast
  have z: "py_round 0 2 = 0" by (simp add: py_round_def round_half_even_def)
  have "fv ''readability_score'' = Some (VInt 60)"
    using r by (simp add: failing_statistic_def)
  moreover have "fv ''avg_word_length'' = Some (VFloat 0)"
    using w by (simp add: example_empty_text z)
  moreover have "fv ''avg_sentence_length'' = Some (VFloat 0)"
    using s by (simp add: example_empty_text z)
  ultimately show ?thesis using fv by blast
qed

end
